theory Spec2Isabelle
  imports Main
begin

section \<open>JavaScript values\<close>

text \<open>
  The gateway (\<^verbatim>\<open>Practica_3/api_gateway/app/index.js\<close>) handles JSON payloads. A value is
  \<^verbatim>\<open>undefined\<close>, \<^verbatim>\<open>null\<close>, a boolean, a number, a string, an array or an object.
  Numbers are integers, taken exact (the rounding of doubles is not modelled) and of the
  size that JavaScript prints in plain decimal notation; an object is the list of its own
  properties, the first binding of a key being the one that counts. Characters are 8-bit.
\<close>

datatype json =
    JUndefined
  | JNull
  | JBool bool
  | JNum int
  | JStr string
  | JArr "json list"
  | JObj "(string \<times> json) list"

text \<open>What a \<^verbatim>\<open>try\<close> block can throw: a \<^verbatim>\<open>TypeError\<close> (a property of
  \<^verbatim>\<open>null\<close> or \<^verbatim>\<open>undefined\<close> is read, or a value that is no function is called), a
  \<^verbatim>\<open>ReferenceError\<close> (an identifier that is not in scope is read), or the value with
  which an awaited promise was rejected.\<close>

datatype js_error = TypeError | ReferenceError string | Thrown json

text \<open>Property access \<^verbatim>\<open>v.k\<close>. The keys read by the gateway (\<^verbatim>\<open>error\<close>,
  \<^verbatim>\<open>quantity\<close>, \<^verbatim>\<open>product\<close>, \<^verbatim>\<open>user_id\<close>) are no properties of the
  prototypes of booleans, numbers, strings or arrays, so reading them there gives
  \<^verbatim>\<open>undefined\<close>.\<close>

fun get_field :: "json \<Rightarrow> string \<Rightarrow> js_error + json" where
  "get_field JUndefined k = Inl TypeError"
| "get_field JNull k = Inl TypeError"
| "get_field (JObj kvs) k = Inr (case map_of kvs k of None \<Rightarrow> JUndefined | Some v \<Rightarrow> v)"
| "get_field v k = Inr JUndefined"

text \<open>Reading an identifier in a scope, given as the bindings that are visible.\<close>

definition read_ident :: "(string \<times> json) list \<Rightarrow> string \<Rightarrow> js_error + json" where
  "read_ident scope x = (case map_of scope x of None \<Rightarrow> Inl (ReferenceError x) | Some v \<Rightarrow> Inr v)"

subsection \<open>Conversion to string\<close>

definition digit_char :: "nat \<Rightarrow> char" where
  "digit_char d = char_of (48 + d)"

function show_nat :: "nat \<Rightarrow> string" where
  "show_nat n = (if n < 10 then [digit_char n] else show_nat (n div 10) @ [digit_char (n mod 10)])"
  by pat_completeness auto
termination
  by (relation "measure (\<lambda>n. n)") auto

declare show_nat.simps [simp del]

definition show_int :: "int \<Rightarrow> string" where
  "show_int i = (if i < 0 then CHR ''-'' # show_nat (nat (- i)) else show_nat (nat i))"

text \<open>\<^verbatim>\<open>String(v)\<close>, which a template literal and \<^verbatim>\<open>parseInt\<close> apply to their argument.
  An array prints its elements separated by commas, \<^verbatim>\<open>null\<close> and \<^verbatim>\<open>undefined\<close>
  elements as the empty string. A number is printed in plain decimal notation, as JavaScript
  prints the integers below \<open>10^21\<close>; from there on it uses the exponent notation, which is
  not modelled.\<close>

fun js_toString :: "json \<Rightarrow> string" and array_join :: "json list \<Rightarrow> string" where
  "js_toString JUndefined = ''undefined''"
| "js_toString JNull = ''null''"
| "js_toString (JBool b) = (if b then ''true'' else ''false'')"
| "js_toString (JNum n) = show_int n"
| "js_toString (JStr s) = s"
| "js_toString (JArr xs) = array_join xs"
| "js_toString (JObj kvs) = ''[object Object]''"
| "array_join [] = []"
| "array_join (x # xs) =
     (if x = JUndefined \<or> x = JNull then [] else js_toString x)
       @ (if xs = [] then [] else CHR '','' # array_join xs)"

subsection \<open>\<^verbatim>\<open>parseInt\<close>\<close>

definition is_js_space :: "char \<Rightarrow> bool" where
  "is_js_space c = ((of_char c :: nat) \<in> {9, 10, 11, 12, 13, 32, 160})"

definition digit_val :: "nat \<Rightarrow> char \<Rightarrow> nat option" where
  "digit_val radix c =
     (let n = (of_char c :: nat);
          v = (if 48 \<le> n \<and> n \<le> 57 then Some (n - 48)
               else if 97 \<le> n \<and> n \<le> 122 then Some (n - 87)
               else if 65 \<le> n \<and> n \<le> 90 then Some (n - 55)
               else None)
      in case v of None \<Rightarrow> None | Some d \<Rightarrow> if d < radix then Some d else None)"

text \<open>The digits of the longest prefix of a string that is a numeral in the radix.\<close>

fun take_digits :: "nat \<Rightarrow> string \<Rightarrow> nat list" where
  "take_digits radix [] = []"
| "take_digits radix (c # cs) =
     (case digit_val radix c of None \<Rightarrow> [] | Some d \<Rightarrow> d # take_digits radix cs)"

definition digits_value :: "nat \<Rightarrow> nat list \<Rightarrow> nat" where
  "digits_value radix ds = foldl (\<lambda>acc d. acc * radix + d) 0 ds"

text \<open>\<^verbatim>\<open>parseInt(s)\<close> without a radix: leading white space is skipped, a sign is read, the
  prefix \<^verbatim>\<open>0x\<close> selects radix 16, and the longest run of digits is the value;
  \<^verbatim>\<open>None\<close> is \<^verbatim>\<open>NaN\<close>.\<close>

definition parseInt_str :: "string \<Rightarrow> int option" where
  "parseInt_str s =
     (let s1 = dropWhile is_js_space s;
          neg = (case s1 of [] \<Rightarrow> False | c # r \<Rightarrow> c = CHR ''-'');
          s2 = (case s1 of [] \<Rightarrow> [] | c # r \<Rightarrow> if c = CHR ''-'' \<or> c = CHR ''+'' then r else s1);
          hex = (case s2 of a # b # r \<Rightarrow> a = CHR ''0'' \<and> (b = CHR ''x'' \<or> b = CHR ''X'') | _ \<Rightarrow> False);
          radix = (if hex then 16 else 10);
          s3 = (if hex then drop 2 s2 else s2);
          ds = take_digits radix s3
      in if ds = [] then None
         else Some ((if neg then - 1 else 1) * int (digits_value radix ds)))"

definition parseInt :: "json \<Rightarrow> int option" where
  "parseInt v = parseInt_str (js_toString v)"


section \<open>The gateway\<close>

text \<open>An HTTP response of the gateway: \<^verbatim>\<open>res.status(n).json(v)\<close>; \<^verbatim>\<open>res.json(v)\<close>
  answers with status 200.\<close>

record response =
  status :: nat
  body :: json

definition respond :: "nat \<Rightarrow> json \<Rightarrow> response" where
  "respond n v = \<lparr>status = n, body = v\<rparr>"

text \<open>The three breakers of the gateway and the payloads of their fallback functions
  (\<^verbatim>\<open>usersCircuit.fallback(() => ({error: ...}))\<close> and so on).\<close>

datatype circuit = Users | Orders | Management

fun fallback :: "circuit \<Rightarrow> json" where
  "fallback Users = JObj [(''error'', JStr ''Users service temporarily unavailable'')]"
| "fallback Orders = JObj [(''error'', JStr ''Orders service temporarily unavailable'')]"
| "fallback Management = JObj [(''error'', JStr ''Management service temporarily unavailable'')]"

text \<open>What \<^verbatim>\<open>await circuit.fire(url, options)\<close> gives a handler: the value the promise
  resolved with, or the value it was rejected with, which the \<^verbatim>\<open>await\<close> throws.\<close>

datatype fire_result = Resolved json | Rejected json

text \<open>A call handed to a breaker: the breaker, the HTTP method, the URL after the base
  URL of the service (which comes from the environment), and the request body.\<close>

datatype http_method = GET | POST | PUT | DELETE

record call =
  circuit :: circuit
  http_method :: http_method
  url :: string
  data :: "json option"

definition mk_call :: "circuit \<Rightarrow> http_method \<Rightarrow> string \<Rightarrow> json option \<Rightarrow> call" where
  "mk_call c m u d = \<lparr>circuit = c, http_method = m, url = u, data = d\<rparr>"

subsection \<open>The order placement: \<^verbatim>\<open>app.post('/orders')\<close>\<close>

text \<open>The comparisons of the handler on the result of \<^verbatim>\<open>parseInt\<close>: every comparison
  with \<^verbatim>\<open>NaN\<close> is false.\<close>

definition js_gt :: "int option \<Rightarrow> int \<Rightarrow> bool" where
  "js_gt q n = (case q of None \<Rightarrow> False | Some k \<Rightarrow> k > n)"

definition js_eq :: "int option \<Rightarrow> int \<Rightarrow> bool" where
  "js_eq q n = (case q of None \<Rightarrow> False | Some k \<Rightarrow> k = n)"

definition js_minus :: "int option \<Rightarrow> int \<Rightarrow> json" where
  \<comment> \<open>only evaluated where the quantity is greater than 0, so it is a number; exact, where
      the handler subtracts doubles, which differs above \<open>2^53\<close> only\<close>
  "js_minus q n = (case q of None \<Rightarrow> JNull | Some k \<Rightarrow> JNum (k - n))"

definition post_orders_error :: response where
  "post_orders_error = respond 500 (JObj [(''error'', JStr ''POST /orders error'')])"

text \<open>
  The handler, with the request body and the results of the three \<^verbatim>\<open>fire\<close> calls it
  may await (the inventory check, the order creation, the inventory update), each looked at
  only where the handler awaits it. It returns the response and the calls it has handed to
  the breakers, in order. In the branch of a quantity that is not greater than 0 the
  payloads in scope are \<^verbatim>\<open>management\<close> and \<^verbatim>\<open>quantity\<close>: the constant
  \<^verbatim>\<open>order\<close> is declared in the block of the other branch, and neither the handler
  nor the module declares another \<^verbatim>\<open>order\<close>.
\<close>

definition post_orders ::
  "json \<Rightarrow> fire_result \<Rightarrow> fire_result \<Rightarrow> fire_result \<Rightarrow> response \<times> call list" where
  "post_orders req_body check created decreased =
     (case get_field req_body ''product'' of
        Inl e \<Rightarrow> (post_orders_error, [])
      | Inr product \<Rightarrow>
          let c1 = mk_call Management GET
                     (''/management/product?product='' @ js_toString product) None
          in (case check of
                Rejected e \<Rightarrow> (post_orders_error, [c1])
              | Resolved management \<Rightarrow>
                  (case get_field management ''quantity'' of
                     Inl e \<Rightarrow> (post_orders_error, [c1])
                   | Inr qv \<Rightarrow>
                       let quantity = parseInt qv in
                       if js_gt quantity 0 then
                         let c2 = mk_call Orders POST ''/orders'' (Some req_body) in
                         (case created of
                            Rejected e \<Rightarrow> (post_orders_error, [c1, c2])
                          | Resolved order \<Rightarrow>
                              let c3 = mk_call Management PUT ''/management/product''
                                         (Some (JObj [(''product'', product),
                                                      (''quantity'', js_minus quantity 1)]))
                              in (case decreased of
                                    Rejected e \<Rightarrow> (post_orders_error, [c1, c2, c3])
                                  | Resolved decreaseQuantity \<Rightarrow>
                                      (respond 201 order, [c1, c2, c3])))
                       else if js_eq quantity (- 1) then
                         (case read_ident [(''management'', management), (''quantity'', JNum (- 1))] ''order'' of
                            Inl e \<Rightarrow> (post_orders_error, [c1])
                          | Inr order \<Rightarrow> (respond 201 order, [c1]))
                       else
                         (respond 400 (JObj [(''error'', JStr ''Product quantity is 0'')]), [c1]))))"


subsection \<open>The routes that make one call\<close>

definition internal_server_error :: response where
  "internal_server_error = respond 500 (JObj [(''error'', JStr ''Internal server error'')])"

text \<open>\<^verbatim>\<open>app.get('/users/:userId')\<close> and \<^verbatim>\<open>app.get('/orders/:orderId')\<close>: the
  payload is looked at for the message of the backend's 404 answer.\<close>

definition get_user :: "fire_result \<Rightarrow> response" where
  "get_user r =
     (case r of
        Rejected e \<Rightarrow> internal_server_error
      | Resolved user \<Rightarrow>
          (case get_field user ''error'' of
             Inl e \<Rightarrow> internal_server_error
           | Inr v \<Rightarrow> if v = JStr ''User not found'' then respond 404 user else respond 200 user))"

definition get_order :: "fire_result \<Rightarrow> response" where
  "get_order r =
     (case r of
        Rejected e \<Rightarrow> internal_server_error
      | Resolved order \<Rightarrow>
          (case get_field order ''error'' of
             Inl e \<Rightarrow> internal_server_error
           | Inr v \<Rightarrow> if v = JStr ''Order not found'' then respond 404 order else respond 200 order))"

text \<open>The other routes pass the payload on, with status 200 or 201.\<close>

definition post_users :: "fire_result \<Rightarrow> response" where
  "post_users r = (case r of Rejected e \<Rightarrow> internal_server_error | Resolved user \<Rightarrow> respond 201 user)"

definition get_users :: "fire_result \<Rightarrow> response" where
  "get_users r = (case r of Rejected e \<Rightarrow> internal_server_error | Resolved users \<Rightarrow> respond 200 users)"

definition delete_user :: "fire_result \<Rightarrow> response" where
  "delete_user r = (case r of Rejected e \<Rightarrow> internal_server_error | Resolved result \<Rightarrow> respond 200 result)"

definition put_user :: "fire_result \<Rightarrow> response" where
  "put_user r = (case r of Rejected e \<Rightarrow> internal_server_error | Resolved user \<Rightarrow> respond 200 user)"

definition get_orders :: "fire_result \<Rightarrow> response" where
  "get_orders r = (case r of Rejected e \<Rightarrow> internal_server_error | Resolved orders \<Rightarrow> respond 200 orders)"

definition delete_order :: "fire_result \<Rightarrow> response" where
  "delete_order r = (case r of Rejected e \<Rightarrow> internal_server_error | Resolved result \<Rightarrow> respond 200 result)"

definition put_order :: "fire_result \<Rightarrow> response" where
  "put_order r = (case r of Rejected e \<Rightarrow> internal_server_error | Resolved order \<Rightarrow> respond 200 order)"

definition get_orders_status :: "fire_result \<Rightarrow> response" where
  "get_orders_status r = (case r of Rejected e \<Rightarrow> internal_server_error | Resolved st \<Rightarrow> respond 200 st)"

definition get_orders_health :: "fire_result \<Rightarrow> response" where
  "get_orders_health r = (case r of Rejected e \<Rightarrow> internal_server_error | Resolved health \<Rightarrow> respond 200 health)"

definition get_managements :: "fire_result \<Rightarrow> response" where
  "get_managements r = (case r of Rejected e \<Rightarrow> internal_server_error | Resolved managements \<Rightarrow> respond 200 managements)"

definition put_management :: "fire_result \<Rightarrow> response" where
  "put_management r = (case r of Rejected e \<Rightarrow> internal_server_error | Resolved management \<Rightarrow> respond 200 management)"

text \<open>\<^verbatim>\<open>app.get('/management/product')\<close>: the \<^verbatim>\<open>catch\<close> block answers
  \<^verbatim>\<open>{error: error}\<close>, the caught value itself.\<close>

definition get_management_product :: "fire_result \<Rightarrow> response" where
  "get_management_product r =
     (case r of
        Rejected e \<Rightarrow> respond 500 (JObj [(''error'', e)])
      | Resolved management \<Rightarrow> respond 200 management)"

definition get_management :: "fire_result \<Rightarrow> response" where
  "get_management r =
     (case r of
        Rejected e \<Rightarrow> respond 500 (JObj [(''error'', JStr ''/management/:id error'')])
      | Resolved management \<Rightarrow> respond 200 management)"

definition post_management :: "fire_result \<Rightarrow> response" where
  "post_management r = (case r of Rejected e \<Rightarrow> internal_server_error | Resolved management \<Rightarrow> respond 201 management)"

text \<open>The routing table for these routes: the handler of each, the breaker it fires, and
  the status with which it passes a payload on. A route stands for a handler as it is
  registered. The handlers of \<^verbatim>\<open>/orders/status\<close> and \<^verbatim>\<open>/orders/health\<close> are
  registered after that of \<^verbatim>\<open>/orders/:orderId\<close>, which matches these two paths first:
  a request for them is served by \<^verbatim>\<open>get_order\<close>.\<close>

datatype route =
    GetUser | PostUsers | GetUsers | DeleteUser | PutUser
  | GetOrder | GetOrders | DeleteOrder | PutOrder | GetOrdersStatus | GetOrdersHealth
  | GetManagements | PutManagement | GetManagementProduct | GetManagement | PostManagement

fun serve :: "route \<Rightarrow> fire_result \<Rightarrow> response" where
  "serve GetUser = get_user"
| "serve PostUsers = post_users"
| "serve GetUsers = get_users"
| "serve DeleteUser = delete_user"
| "serve PutUser = put_user"
| "serve GetOrder = get_order"
| "serve GetOrders = get_orders"
| "serve DeleteOrder = delete_order"
| "serve PutOrder = put_order"
| "serve GetOrdersStatus = get_orders_status"
| "serve GetOrdersHealth = get_orders_health"
| "serve GetManagements = get_managements"
| "serve PutManagement = put_management"
| "serve GetManagementProduct = get_management_product"
| "serve GetManagement = get_management"
| "serve PostManagement = post_management"

fun route_circuit :: "route \<Rightarrow> circuit" where
  "route_circuit GetUser = Users"
| "route_circuit PostUsers = Users"
| "route_circuit GetUsers = Users"
| "route_circuit DeleteUser = Users"
| "route_circuit PutUser = Users"
| "route_circuit GetOrder = Orders"
| "route_circuit GetOrders = Orders"
| "route_circuit DeleteOrder = Orders"
| "route_circuit PutOrder = Orders"
| "route_circuit GetOrdersStatus = Orders"
| "route_circuit GetOrdersHealth = Orders"
| "route_circuit GetManagements = Management"
| "route_circuit PutManagement = Management"
| "route_circuit GetManagementProduct = Management"
| "route_circuit GetManagement = Management"
| "route_circuit PostManagement = Management"

definition success_status :: "route \<Rightarrow> nat" where
  "success_status rt = (if rt = PostUsers \<or> rt = PostManagement then 201 else 200)"

subsection \<open>The aggregation: \<^verbatim>\<open>app.get('/users/:userId/details')\<close>\<close>

text \<open>
  \<^verbatim>\<open>orders.filter(order => order.user_id == userId.toString())\<close>. The loose equality
  \<^verbatim>\<open>==\<close> of JavaScript between a payload value and a string is a parameter. Reading
  \<^verbatim>\<open>user_id\<close> of a \<^verbatim>\<open>null\<close> element throws, and so does the whole filter.
\<close>

fun filter_orders :: "(json \<Rightarrow> json \<Rightarrow> bool) \<Rightarrow> string \<Rightarrow> json list \<Rightarrow> js_error + json list" where
  "filter_orders loose_eq userId [] = Inr []"
| "filter_orders loose_eq userId (order # rest) =
     (case get_field order ''user_id'' of
        Inl e \<Rightarrow> Inl e
      | Inr uid \<Rightarrow>
          (case filter_orders loose_eq userId rest of
             Inl e \<Rightarrow> Inl e
           | Inr kept \<Rightarrow> Inr (if loose_eq uid (JStr userId) then order # kept else kept)))"

text \<open>\<^verbatim>\<open>.then(orders => orders.filter(...))\<close> on the promise of the order list: a payload
  that is no array has no function \<^verbatim>\<open>filter\<close>, and calling it throws.\<close>

definition orders_promise :: "(json \<Rightarrow> json \<Rightarrow> bool) \<Rightarrow> string \<Rightarrow> fire_result \<Rightarrow> js_error + json list" where
  "orders_promise loose_eq userId r =
     (case r of
        Rejected e \<Rightarrow> Inl (Thrown e)
      | Resolved orders \<Rightarrow>
          (case orders of JArr xs \<Rightarrow> filter_orders loose_eq userId xs | _ \<Rightarrow> Inl TypeError))"

definition user_promise :: "fire_result \<Rightarrow> js_error + json" where
  "user_promise r = (case r of Rejected e \<Rightarrow> Inl (Thrown e) | Resolved user \<Rightarrow> Inr user)"

text \<open>\<^verbatim>\<open>await Promise.all([p, q])\<close>: both values, or a throw when one of the two is
  rejected (which rejection is thrown when both are depends on their timing; the handler
  does not look at it).\<close>

definition promise_all :: "js_error + 'a \<Rightarrow> js_error + 'b \<Rightarrow> js_error + ('a \<times> 'b)" where
  "promise_all p q =
     (case p of
        Inl e \<Rightarrow> Inl e
      | Inr x \<Rightarrow> (case q of Inl e \<Rightarrow> Inl e | Inr y \<Rightarrow> Inr (x, y)))"

definition users_details ::
  "(json \<Rightarrow> json \<Rightarrow> bool) \<Rightarrow> string \<Rightarrow> fire_result \<Rightarrow> fire_result \<Rightarrow> response \<times> call list" where
  "users_details loose_eq userId user_fired orders_fired =
     (let calls = [mk_call Users GET (''/users/'' @ userId) None,
                   mk_call Orders GET ''/orders'' None]
      in (case promise_all (user_promise user_fired) (orders_promise loose_eq userId orders_fired) of
            Inl e \<Rightarrow> (internal_server_error, calls)
          | Inr (user, userOrders) \<Rightarrow>
              (case get_field user ''error'' of
                 Inl e \<Rightarrow> (internal_server_error, calls)
               | Inr v \<Rightarrow>
                   if v = JStr ''User not found'' then (respond 404 user, calls)
                   else (respond 200 (JObj [(''user'', user), (''orders'', JArr userOrders)]), calls))))"


section \<open>The calls of a breaker\<close>

text \<open>
  The function each breaker wraps (\<^verbatim>\<open>new CircuitBreaker(async (url, options) => ...)\<close>):
  one request with \<^verbatim>\<open>axios\<close>, which either gets a response, with a status and a payload,
  or fails without one. \<^verbatim>\<open>validateStatus\<close> accepts the statuses from 200 to 299 and 404;
  on any other status \<^verbatim>\<open>axios\<close> throws an error that carries the response, and the
  \<^verbatim>\<open>catch\<close> block returns the payload of a 404 response and throws the error again
  otherwise.
\<close>

datatype proxy_outcome = Response nat json | NetworkError json

definition validateStatus :: "nat \<Rightarrow> bool" where
  "validateStatus s = ((200 \<le> s \<and> s < 300) \<or> s = 404)"

definition circuit_action :: "proxy_outcome \<Rightarrow> js_error + json" where
  "circuit_action out =
     (case out of
        Response s d \<Rightarrow>
          if validateStatus s then Inr d
          else if s = 404 then Inr d
          else Inl (Thrown (JObj [(''response'', JObj [(''status'', JNum (int s)), (''data'', d)])]))
      | NetworkError e \<Rightarrow> Inl (Thrown e))"

section \<open>The circuit breaker\<close>

text \<open>
  The class \<^verbatim>\<open>CircuitBreaker\<close> comes from the package \<^verbatim>\<open>opossum\<close>, which is not
  among the sources; only its construction with \<^verbatim>\<open>circuitOptions\<close>, the registration of
  the fallbacks and the calls of \<^verbatim>\<open>fire\<close> are. The definitions of this section follow
  section 4.1 and the data model of the specification. Times are in milliseconds.
\<close>

text \<open>Modelled from the spec: the phase of a breaker (BreakerState, "current phase").\<close>

datatype phase = CLOSED | OPEN | HALF_OPEN

text \<open>Modelled from the spec: the breaker policy of a Downstream: "timeout, error-ratio
  threshold, minimum sample volume, reset interval, half-open trial limit". The threshold is
  a percentage, as \<^verbatim>\<open>errorThresholdPercentage\<close> is in \<^verbatim>\<open>circuitOptions\<close>. For how
  long an outcome stays in the rolling window is left open by the specification; it is the
  field \<^verbatim>\<open>windowSpan\<close>.\<close>

record policy =
  timeout :: nat
  errorThreshold :: nat
  minVolume :: nat
  resetInterval :: nat
  trialLimit :: nat
  windowSpan :: nat

text \<open>Modelled from the spec: BreakerState: the phase, the "rolling window of recent
  outcomes" (each with its time, \<^verbatim>\<open>True\<close> for a success, the latest first), the "time the
  breaker last opened" and the "count of in-flight half-open trial calls".\<close>

record breaker =
  phase :: phase
  window :: "(nat \<times> bool) list"
  openedAt :: nat
  trials :: nat

text \<open>Modelled from the spec: the breaker of a downstream at startup, CLOSED with an
  empty window.\<close>

definition initial_breaker :: breaker where
  "initial_breaker = \<lparr>phase = CLOSED, window = [], openedAt = 0, trials = 0\<rparr>"

text \<open>Modelled from the spec: "each outcome updates the rolling window": the outcome
  is added, and the outcomes older than the span of the window are dropped.\<close>

definition record_outcome :: "policy \<Rightarrow> nat \<Rightarrow> bool \<Rightarrow> (nat \<times> bool) list \<Rightarrow> (nat \<times> bool) list" where
  "record_outcome p now ok w = (now, ok) # filter (\<lambda>e. now - fst e \<le> windowSpan p) w"

text \<open>Modelled from the spec: the number of failures among the outcomes of a window.\<close>

definition failures_in :: "(nat \<times> bool) list \<Rightarrow> nat" where
  "failures_in w = length (filter (\<lambda>e. \<not> snd e) w)"

text \<open>Modelled from the spec: "the window has accumulated at least the configured minimum
  sample volume and the failure ratio within the window is \<open>\<ge>\<close> the configured error-ratio
  threshold"; the ratio \<open>failures / samples \<ge> threshold / 100\<close> is written without division.\<close>

definition tripped :: "policy \<Rightarrow> (nat \<times> bool) list \<Rightarrow> bool" where
  "tripped p w = (minVolume p \<le> length w \<and> errorThreshold p * length w \<le> 100 * failures_in w)"

text \<open>Modelled from the spec: whether a call that arrives at time \<open>now\<close> is attempted.
  CLOSED: calls are attempted. OPEN: calls are never attempted; once the time since the open
  timestamp exceeds the reset interval, the next call is admitted as a trial and the breaker
  moves to HALF_OPEN. HALF_OPEN: up to the configured number of concurrent trial calls are
  admitted.\<close>

definition admit :: "policy \<Rightarrow> nat \<Rightarrow> breaker \<Rightarrow> bool \<times> breaker" where
  "admit p now b =
     (case phase b of
        CLOSED \<Rightarrow> (True, b)
      | OPEN \<Rightarrow>
          if now - openedAt b > resetInterval p
          then (True, b\<lparr>phase := HALF_OPEN, trials := 1\<rparr>)
          else (False, b)
      | HALF_OPEN \<Rightarrow>
          if trials b < trialLimit p then (True, b\<lparr>trials := trials b + 1\<rparr>) else (False, b))"

text \<open>Modelled from the spec: the outcome of an attempted call, reported at time \<open>now\<close>.
  CLOSED: the outcome updates the window, and the breaker opens and records the open
  timestamp when the window trips. HALF_OPEN: a trial success closes the breaker, a trial
  failure reopens it and resets the open timestamp, and both reset the window. The
  specification has no transition for an outcome that arrives while the breaker is OPEN
  (from a call admitted before it opened): it is dropped.\<close>

definition settle :: "policy \<Rightarrow> nat \<Rightarrow> bool \<Rightarrow> breaker \<Rightarrow> breaker" where
  "settle p now ok b =
     (case phase b of
        CLOSED \<Rightarrow>
          let w = record_outcome p now ok (window b)
          in if tripped p w then b\<lparr>phase := OPEN, window := w, openedAt := now\<rparr>
             else b\<lparr>window := w\<rparr>
      | OPEN \<Rightarrow> b
      | HALF_OPEN \<Rightarrow>
          if ok then b\<lparr>phase := CLOSED, window := [], trials := 0\<rparr>
          else b\<lparr>phase := OPEN, window := [], openedAt := now, trials := 0\<rparr>)"

text \<open>Modelled from the spec: the result of \<open>execute(call) \<rightarrow> Result\<close>. A call that is
  not admitted gets the fallback result at once and the downstream is not invoked; an
  admitted call is made, and its outcome is a success when the wrapped function returns.
  The third component of what \<open>execute\<close> returns counts the invocations of the
  downstream.\<close>

datatype exec_result = Completed "js_error + json" | FellBack json

text \<open>Modelled from the spec: \<open>execute\<close> at time \<open>now\<close>, with the fallback payload of
  the breaker and the outcome that the downstream has for the call if it is made.\<close>

definition execute ::
  "policy \<Rightarrow> json \<Rightarrow> nat \<Rightarrow> proxy_outcome \<Rightarrow> breaker \<Rightarrow> exec_result \<times> breaker \<times> nat" where
  "execute p fb now out b =
     (case admit p now b of
        (False, b') \<Rightarrow> (FellBack fb, b', 0)
      | (True, b') \<Rightarrow>
          let r = circuit_action out
          in (Completed r, settle p now (\<not> isl r) b', 1))"

text \<open>Modelled from the spec: \<^verbatim>\<open>circuit.fire(url, options)\<close> of the gateway: \<open>execute\<close> of
  the breaker, with the payload of the fallback function that the gateway registered for it
  (\<^verbatim>\<open>usersCircuit.fallback(...)\<close> and so on). "Every component catches its own downstream
  failures and converts them before returning": a call that failed resolves with the
  fallback result, as a call that was not attempted does, and the fallback "must never raise
  an error itself". So the promise of \<^verbatim>\<open>fire\<close> is never rejected.\<close>

definition fire ::
  "policy \<Rightarrow> circuit \<Rightarrow> nat \<Rightarrow> proxy_outcome \<Rightarrow> breaker \<Rightarrow> fire_result \<times> breaker \<times> nat" where
  "fire p c now out b =
     (case execute p (fallback c) now out b of
        (FellBack fb, b', k) \<Rightarrow> (Resolved fb, b', k)
      | (Completed (Inr v), b', k) \<Rightarrow> (Resolved v, b', k)
      | (Completed (Inl e), b', k) \<Rightarrow> (Resolved (fallback c), b', k))"

text \<open>Modelled from the spec: calls made one after the other, each with its time and
  the outcome the downstream has for it: the results, the breaker after the last call, and
  the number of invocations of the downstream.\<close>

fun execute_all ::
  "policy \<Rightarrow> json \<Rightarrow> (nat \<times> proxy_outcome) list \<Rightarrow> breaker \<Rightarrow> exec_result list \<times> breaker \<times> nat" where
  "execute_all p fb [] b = ([], b, 0)"
| "execute_all p fb ((t, out) # calls) b =
     (case execute p fb t out b of
        (r, b', k) \<Rightarrow>
          (case execute_all p fb calls b' of
             (rs, b'', m) \<Rightarrow> (r # rs, b'', k + m)))"

text \<open>Modelled from the spec: requests share the state of a breaker, so calls overlap:
  the history of a breaker is a sequence of arrivals of calls and of outcomes of admitted
  calls. The second component counts the invocations of the downstream.\<close>

datatype event = Arrival nat | Outcome nat bool

text \<open>Modelled from the spec: the time of an event.\<close>

fun event_time :: "event \<Rightarrow> nat" where
  "event_time (Arrival t) = t"
| "event_time (Outcome t ok) = t"

text \<open>Modelled from the spec: one event: an arrival is admitted or not, and an admitted
  call invokes the downstream; an outcome is reported.\<close>

fun step :: "policy \<Rightarrow> breaker \<times> nat \<Rightarrow> event \<Rightarrow> breaker \<times> nat" where
  "step p (b, n) (Arrival t) = (case admit p t b of (ok, b') \<Rightarrow> (b', if ok then n + 1 else n))"
| "step p (b, n) (Outcome t ok) = (settle p t ok b, n)"

text \<open>Modelled from the spec: a sequence of events, from the first on.\<close>

definition run :: "policy \<Rightarrow> event list \<Rightarrow> breaker \<times> nat \<Rightarrow> breaker \<times> nat" where
  "run p evs s = foldl (step p) s evs"

text \<open>Modelled from the spec: the example of section 8: "threshold 50%, minimum volume
  10, reset interval 3000 ms", with one trial and a window of ten seconds; a CLOSED breaker
  that has seen nine calls, four successes and then five failures; and the breaker after a
  tenth call failed at time 900, the sixth failure of ten.\<close>

definition example_policy :: policy where
  "example_policy =
     \<lparr>timeout = 3000, errorThreshold = 50, minVolume = 10, resetInterval = 3000,
      trialLimit = 1, windowSpan = 10000\<rparr>"

definition example_window :: "(nat \<times> bool) list" where
  "example_window =
     [(800, False), (700, False), (600, False), (500, False), (400, False),
      (300, True), (200, True), (100, True), (0, True)]"

definition example_closed :: breaker where
  "example_closed = \<lparr>phase = CLOSED, window = example_window, openedAt = 0, trials = 0\<rparr>"

definition example_opened :: breaker where
  "example_opened =
     \<lparr>phase = OPEN, window = (900, False) # example_window, openedAt = 900, trials = 0\<rparr>"


section \<open>The management service\<close>

text \<open>
  The table \<^verbatim>\<open>management\<close> with the columns its queries name, in the order in which a
  query without \<^verbatim>\<open>ORDER BY\<close> returns its rows, and the cache of the service. The cache
  holds what the service stores in it: a row as \<^verbatim>\<open>getById\<close> and \<^verbatim>\<open>getByProduct\<close>
  select it (product and quantity), or the list of all rows. The entries expire after 300
  seconds; time is not modelled, so a statement about a state holds whichever entries have
  expired.
\<close>

record management_row =
  mg_id :: nat
  mg_product :: string
  mg_quantity :: int

datatype cache_entry = CachedRow string int | CachedAll "management_row list"

record management_state =
  mg_table :: "management_row list"
  mg_cache :: "string \<rightharpoonup> cache_entry"

definition json_of_management_row :: "management_row \<Rightarrow> json" where
  "json_of_management_row r =
     JObj [(''id'', JNum (int (mg_id r))), (''product'', JStr (mg_product r)),
           (''quantity'', JNum (mg_quantity r))]"

fun json_of_cache_entry :: "cache_entry \<Rightarrow> json" where
  "json_of_cache_entry (CachedRow product quantity) =
     JObj [(''product'', JStr product), (''quantity'', JNum quantity)]"
| "json_of_cache_entry (CachedAll rs) = JArr (map json_of_management_row rs)"

text \<open>\<^verbatim>\<open>ManagementModel.decreaseQuantity\<close>:
  \<^verbatim>\<open>UPDATE management SET quantity = $1 WHERE product = $2 RETURNING *\<close>, and the first
  of the rows returned.\<close>

definition ManagementModel_decreaseQuantity ::
  "string \<Rightarrow> int \<Rightarrow> management_row list \<Rightarrow> management_row option \<times> management_row list" where
  "ManagementModel_decreaseQuantity product quantity t =
     (let t' = map (\<lambda>r. if mg_product r = product then r\<lparr>mg_quantity := quantity\<rparr> else r) t
      in (find (\<lambda>r. mg_product r = product) t', t'))"

text \<open>\<^verbatim>\<open>ManagementModel.getByProduct\<close>:
  \<^verbatim>\<open>SELECT product, quantity FROM management WHERE product = $1\<close>, and the first row.\<close>

definition ManagementModel_getByProduct :: "string \<Rightarrow> management_row list \<Rightarrow> cache_entry option" where
  "ManagementModel_getByProduct product t =
     map_option (\<lambda>r. CachedRow (mg_product r) (mg_quantity r)) (find (\<lambda>r. mg_product r = product) t)"

text \<open>\<^verbatim>\<open>ManagementService.decreaseQuantity\<close>: after an update that returned a row, the
  cache entries of the product, of all rows and of the identifier of the row are deleted.\<close>

definition ManagementService_decreaseQuantity ::
  "string \<Rightarrow> int \<Rightarrow> management_state \<Rightarrow> management_row option \<times> management_state" where
  "ManagementService_decreaseQuantity product quantity st =
     (case ManagementModel_decreaseQuantity product quantity (mg_table st) of
        (None, t') \<Rightarrow> (None, st\<lparr>mg_table := t'\<rparr>)
      | (Some r, t') \<Rightarrow>
          (Some r,
           \<lparr>mg_table = t',
            mg_cache = (mg_cache st)
              (''management:'' @ product := None,
               ''management:all'' := None,
               ''management:'' @ show_nat (mg_id r) := None)\<rparr>))"

text \<open>\<^verbatim>\<open>ManagementService.getManagementByProduct\<close>: the cache entry of the product when
  there is one; otherwise the row of the table, which is stored in the cache when there is
  one.\<close>

definition ManagementService_getManagementByProduct ::
  "string \<Rightarrow> management_state \<Rightarrow> cache_entry option \<times> management_state" where
  "ManagementService_getManagementByProduct product st =
     (case mg_cache st (''management:'' @ product) of
        Some cached \<Rightarrow> (Some cached, st)
      | None \<Rightarrow>
          (case ManagementModel_getByProduct product (mg_table st) of
             None \<Rightarrow> (None, st)
           | Some management \<Rightarrow>
               (Some management,
                st\<lparr>mg_cache := (mg_cache st)(''management:'' @ product \<mapsto> management)\<rparr>)))"

text \<open>\<^verbatim>\<open>management.length == 0\<close> on what the service returned: a row is an object
  without a property \<^verbatim>\<open>length\<close>.\<close>

fun has_length_zero :: "cache_entry \<Rightarrow> bool" where
  "has_length_zero (CachedRow product quantity) = False"
| "has_length_zero (CachedAll rs) = (length rs = 0)"

text \<open>\<^verbatim>\<open>router.get('/product')\<close> with the query parameter \<^verbatim>\<open>product\<close>: when
  \<^verbatim>\<open>!management || management.length == 0\<close>, the product is answered with the
  quantity \<open>-1\<close>.\<close>

definition management_get_product :: "string \<Rightarrow> management_state \<Rightarrow> response \<times> management_state" where
  "management_get_product product st =
     (case ManagementService_getManagementByProduct product st of
        (None, st') \<Rightarrow> (respond 200 (JObj [(''quantity'', JNum (- 1))]), st')
      | (Some management, st') \<Rightarrow>
          if has_length_zero management
          then (respond 200 (JObj [(''quantity'', JNum (- 1))]), st')
          else (respond 200 (json_of_cache_entry management), st'))"

text \<open>\<^verbatim>\<open>router.put('/product')\<close>. The validation of the body against
  \<^verbatim>\<open>updateSchema\<close> is done by the package \<^verbatim>\<open>Joi\<close> and is a parameter: it gives the
  message of the first error, or the validated value, taken with both of its fields, as the
  order placement of the gateway sends them.\<close>

definition management_put_product ::
  "(json \<Rightarrow> string + string \<times> int) \<Rightarrow> json \<Rightarrow> management_state \<Rightarrow> response \<times> management_state" where
  "management_put_product validate req_body st =
     (case validate req_body of
        Inl message \<Rightarrow> (respond 400 (JObj [(''error'', JStr message)]), st)
      | Inr (product, quantity) \<Rightarrow>
          (case ManagementService_decreaseQuantity product quantity st of
             (None, st') \<Rightarrow> (respond 404 (JObj [(''error'', JStr ''Management not found'')]), st')
           | (Some management, st') \<Rightarrow> (respond 200 (json_of_management_row management), st')))"

section \<open>The orders service\<close>

text \<open>
  The table \<^verbatim>\<open>orders\<close> with the columns its queries name, and the sequence of its
  identity column: the identifier the next inserted row gets. The sequence starts at 1.
\<close>

record order_row =
  or_id :: nat
  or_user_id :: int
  or_product :: string

record orders_db =
  or_rows :: "order_row list"
  or_next_id :: nat

definition empty_orders_db :: orders_db where
  "empty_orders_db = \<lparr>or_rows = [], or_next_id = 1\<rparr>"

text \<open>\<^verbatim>\<open>OrderModel.create\<close>:
  \<^verbatim>\<open>INSERT INTO orders (user_id, product) VALUES ($1, $2) RETURNING *\<close>.\<close>

definition OrderModel_create :: "int \<times> string \<Rightarrow> orders_db \<Rightarrow> order_row \<times> orders_db" where
  "OrderModel_create orderData db =
     (let row = \<lparr>or_id = or_next_id db, or_user_id = fst orderData, or_product = snd orderData\<rparr>
      in (row, \<lparr>or_rows = or_rows db @ [row], or_next_id = or_next_id db + 1\<rparr>))"

text \<open>\<^verbatim>\<open>OrderModel.getAll\<close>: \<^verbatim>\<open>SELECT * FROM orders\<close>, and
  \<^verbatim>\<open>TRUNCATE TABLE orders RESTART IDENTITY\<close> when no row was selected.\<close>

definition OrderModel_getAll :: "orders_db \<Rightarrow> order_row list \<times> orders_db" where
  "OrderModel_getAll db =
     (let rows = or_rows db
      in if length rows = 0 then (rows, \<lparr>or_rows = [], or_next_id = 1\<rparr>) else (rows, db))"

text \<open>\<^verbatim>\<open>OrderModel.delete\<close>: \<^verbatim>\<open>DELETE FROM orders WHERE id = $1 RETURNING *\<close>, and the
  first of the rows returned.\<close>

definition OrderModel_delete :: "nat \<Rightarrow> orders_db \<Rightarrow> order_row option \<times> orders_db" where
  "OrderModel_delete order_id db =
     (find (\<lambda>r. or_id r = order_id) (or_rows db),
      db\<lparr>or_rows := filter (\<lambda>r. or_id r \<noteq> order_id) (or_rows db)\<rparr>)"

text \<open>The service with its cache entry under the key \<^verbatim>\<open>order:all\<close>.
  \<^verbatim>\<open>OrderService.getOrderAll\<close> returns the cached list when there is one; otherwise it
  reads the table and stores a list that is not empty.\<close>

record orders_state =
  or_db :: orders_db
  or_all_cached :: "order_row list option"

definition OrderService_getOrderAll :: "orders_state \<Rightarrow> order_row list \<times> orders_state" where
  "OrderService_getOrderAll st =
     (case or_all_cached st of
        Some cachedOrders \<Rightarrow> (cachedOrders, st)
      | None \<Rightarrow>
          (case OrderModel_getAll (or_db st) of
             (orders, db') \<Rightarrow>
               if length orders \<noteq> 0 then (orders, \<lparr>or_db = db', or_all_cached = Some orders\<rparr>)
               else (orders, \<lparr>or_db = db', or_all_cached = None\<rparr>)))"

definition json_of_order_row :: "order_row \<Rightarrow> json" where
  "json_of_order_row r =
     JObj [(''id'', JNum (int (or_id r))), (''user_id'', JNum (or_user_id r)),
           (''product'', JStr (or_product r))]"

text \<open>\<^verbatim>\<open>router.get('/')\<close> of the orders service.\<close>

definition orders_get_all :: "orders_state \<Rightarrow> response \<times> orders_state" where
  "orders_get_all st =
     (case OrderService_getOrderAll st of
        (orders, st') \<Rightarrow>
          if length orders = 0 then (respond 404 (JObj [(''error'', JStr ''Orders not found'')]), st')
          else (respond 200 (JArr (map json_of_order_row orders)), st'))"


section \<open>The order placement, by the observed quantity\<close>

text \<open>A quantity that is not greater than 0: no further call is made. The quantity \<open>-1\<close>
  reaches the branch that reads \<^verbatim>\<open>order\<close>, which throws; any other is answered 400.\<close>

lemma post_orders_not_positive:
  assumes "get_field req_body ''product'' = Inr product"
    and "get_field management ''quantity'' = Inr qv"
    and "parseInt qv = Some q"
    and "q \<le> 0"
  shows "post_orders req_body (Resolved management) created decreased =
           (if q = - 1 then post_orders_error
            else respond 400 (JObj [(''error'', JStr ''Product quantity is 0'')]),
            [mk_call Management GET (''/management/product?product='' @ js_toString product) None])"
  using assms by (simp add: post_orders_def js_gt_def js_eq_def read_ident_def)

text \<open>A quantity greater than 0: the order creation is fired, and after it has resolved the
  inventory update with the quantity less one.\<close>

lemma post_orders_positive:
  assumes "get_field req_body ''product'' = Inr product"
    and "get_field management ''quantity'' = Inr qv"
    and "parseInt qv = Some q"
    and "0 < q"
  shows "post_orders req_body (Resolved management) created decreased =
           (let c1 = mk_call Management GET (''/management/product?product='' @ js_toString product) None;
                c2 = mk_call Orders POST ''/orders'' (Some req_body);
                c3 = mk_call Management PUT ''/management/product''
                       (Some (JObj [(''product'', product), (''quantity'', JNum (q - 1))]))
            in case created of
                 Rejected e \<Rightarrow> (post_orders_error, [c1, c2])
               | Resolved order \<Rightarrow>
                   (case decreased of
                      Rejected e \<Rightarrow> (post_orders_error, [c1, c2, c3])
                    | Resolved d \<Rightarrow> (respond 201 order, [c1, c2, c3])))"
  using assms by (simp add: post_orders_def js_gt_def js_minus_def Let_def split: fire_result.splits)

text \<open>A number prints and parses back: \<^verbatim>\<open>parseInt\<close> of a number is the number.\<close>

lemma digit_val_digit_char: "d < 10 \<Longrightarrow> digit_val 10 (digit_char d) = Some d"
  by (simp add: digit_val_def digit_char_def Let_def)

lemma not_space_digit_char: "d < 10 \<Longrightarrow> \<not> is_js_space (digit_char d)"
  by (simp add: is_js_space_def digit_char_def)

lemma of_char_digit_char: "d < 10 \<Longrightarrow> (of_char (digit_char d) :: nat) = 48 + d"
  by (simp add: digit_char_def)

lemma digit_char_neq:
  assumes "d < 10"
  shows "digit_char d \<noteq> CHR ''-'' \<and> digit_char d \<noteq> CHR ''+'' \<and> digit_char d \<noteq> CHR ''x'' \<and> digit_char d \<noteq> CHR ''X''"
proof -
  have "(of_char (digit_char d) :: nat) \<noteq> of_char CHR ''-''"
    "(of_char (digit_char d) :: nat) \<noteq> of_char CHR ''+''"
    "(of_char (digit_char d) :: nat) \<noteq> of_char CHR ''x''"
    "(of_char (digit_char d) :: nat) \<noteq> of_char CHR ''X''"
    using assms by (simp_all add: of_char_digit_char)
  then show ?thesis by auto
qed

lemma take_digits_show_nat:
  "take_digits 10 (show_nat n @ cs) = map (\<lambda>c. of_char c - 48) (show_nat n) @ take_digits 10 cs"
proof (induction n arbitrary: cs rule: show_nat.induct)
  case (1 n)
  show ?case
  proof (cases "n < 10")
    case True
    then show ?thesis
      by (subst (1 2) show_nat.simps) (simp add: digit_val_digit_char, simp add: digit_char_def)
  next
    case False
    have "take_digits 10 (show_nat n @ cs) = take_digits 10 (show_nat (n div 10) @ (digit_char (n mod 10) # cs))"
      using False by (subst show_nat.simps) simp
    also have "\<dots> = map (\<lambda>c. of_char c - 48) (show_nat (n div 10)) @ take_digits 10 (digit_char (n mod 10) # cs)"
      using "1.IH" [OF False] by simp
    also have "\<dots> = map (\<lambda>c. of_char c - 48) (show_nat n) @ take_digits 10 cs"
      using False by (subst (2) show_nat.simps) (simp add: digit_val_digit_char, simp add: digit_char_def)
    finally show ?thesis .
  qed
qed

lemma digits_value_show_nat:
  "foldl (\<lambda>acc d. acc * 10 + d) a (map (\<lambda>c. of_char c - 48) (show_nat n)) = a * 10 ^ length (show_nat n) + n"
proof (induction n arbitrary: a rule: show_nat.induct)
  case (1 n)
  show ?case
  proof (cases "n < 10")
    case True
    then show ?thesis by (subst (1 2) show_nat.simps) (simp add: digit_char_def)
  next
    case False
    have l: "length (show_nat n) = Suc (length (show_nat (n div 10)))"
      using False by (subst show_nat.simps) simp
    have "foldl (\<lambda>acc d. acc * 10 + d) a (map (\<lambda>c. of_char c - 48) (show_nat n))
        = foldl (\<lambda>acc d. acc * 10 + d) a (map (\<lambda>c. of_char c - 48) (show_nat (n div 10))) * 10 + n mod 10"
      using False by (subst show_nat.simps) (simp add: digit_char_def)
    also have "\<dots> = (a * 10 ^ length (show_nat (n div 10)) + n div 10) * 10 + n mod 10"
      using "1.IH" [OF False] by simp
    also have "\<dots> = a * 10 ^ length (show_nat n) + n"
      by (simp add: l algebra_simps)
    finally show ?thesis .
  qed
qed

lemma show_nat_shape: "\<exists>d cs. show_nat n = digit_char d # cs \<and> d < 10 \<and> (cs = [] \<or> (\<exists>d' cs'. cs = digit_char d' # cs' \<and> d' < 10))"
proof (induction n rule: show_nat.induct)
  case (1 n)
  show ?case
  proof (cases "n < 10")
    case True
    then show ?thesis by (subst show_nat.simps) auto
  next
    case False
    from "1.IH" [OF False] obtain d cs where
      s: "show_nat (n div 10) = digit_char d # cs" "d < 10" by blast
    have "show_nat n = digit_char d # (cs @ [digit_char (n mod 10)])"
      using False s by (subst show_nat.simps) simp
    moreover have "cs @ [digit_char (n mod 10)] = [] \<or> (\<exists>d' cs'. cs @ [digit_char (n mod 10)] = digit_char d' # cs' \<and> d' < 10)"
      using "1.IH" [OF False] s by (cases cs) auto
    ultimately show ?thesis using s(2) by blast
  qed
qed

lemma parseInt_str_show_nat: "parseInt_str (show_nat n) = Some (int n)"
proof -
  from show_nat_shape [of n] obtain d cs where
    s: "show_nat n = digit_char d # cs" "d < 10"
       "cs = [] \<or> (\<exists>d' cs'. cs = digit_char d' # cs' \<and> d' < 10)" by blast
  have nohex: "\<not> (case show_nat n of a # b # r \<Rightarrow> a = CHR ''0'' \<and> (b = CHR ''x'' \<or> b = CHR ''X'') | _ \<Rightarrow> False)"
    using s digit_char_neq by (auto split: list.splits)
  have td: "take_digits 10 (show_nat n) = map (\<lambda>c. of_char c - 48) (show_nat n)"
    using take_digits_show_nat [of n "[]"] by simp
  have ne: "take_digits 10 (show_nat n) \<noteq> []"
    using s(1) td by simp
  have dv: "digits_value 10 (take_digits 10 (show_nat n)) = n"
    using digits_value_show_nat [of 0 n] td by (simp add: digits_value_def)
  have sp: "dropWhile is_js_space (show_nat n) = show_nat n"
    using s not_space_digit_char by simp
  show ?thesis
    unfolding parseInt_str_def sp
    using s(1,2) nohex ne dv digit_char_neq [OF s(2)]
    by (simp add: Let_def)
qed

lemma parseInt_str_show_neg: "0 < n \<Longrightarrow> parseInt_str (CHR ''-'' # show_nat n) = Some (- int n)"
proof -
  assume "0 < n"
  from show_nat_shape [of n] obtain d cs where
    s: "show_nat n = digit_char d # cs" "d < 10"
       "cs = [] \<or> (\<exists>d' cs'. cs = digit_char d' # cs' \<and> d' < 10)" by blast
  have nohex: "\<not> (case show_nat n of a # b # r \<Rightarrow> a = CHR ''0'' \<and> (b = CHR ''x'' \<or> b = CHR ''X'') | _ \<Rightarrow> False)"
    using s digit_char_neq by (auto split: list.splits)
  have td: "take_digits 10 (show_nat n) = map (\<lambda>c. of_char c - 48) (show_nat n)"
    using take_digits_show_nat [of n "[]"] by simp
  have ne: "take_digits 10 (show_nat n) \<noteq> []"
    using s(1) td by simp
  have dv: "digits_value 10 (take_digits 10 (show_nat n)) = n"
    using digits_value_show_nat [of 0 n] td by (simp add: digits_value_def)
  have sp: "dropWhile is_js_space (CHR ''-'' # show_nat n) = CHR ''-'' # show_nat n"
    by (simp add: is_js_space_def)
  show ?thesis
    unfolding parseInt_str_def sp
    using nohex ne dv
    by (simp add: Let_def)
qed

lemma parseInt_JNum: "parseInt (JNum n) = Some n"
proof (cases "n < 0")
  case True
  then show ?thesis
    using parseInt_str_show_neg [of "nat (- n)"] by (simp add: parseInt_def show_int_def)
next
  case False
  then show ?thesis
    using parseInt_str_show_nat [of "nat n"] by (simp add: parseInt_def show_int_def)
qed

lemma parseInt_undefined: "parseInt JUndefined = None"
  by code_simp

subsection \<open>The management service after an update\<close>

lemma find_after_update:
  "\<exists>r \<in> set t. mg_product r = p \<Longrightarrow>
   \<exists>r'. find (\<lambda>r. mg_product r = p)
          (map (\<lambda>r. if mg_product r = p then r\<lparr>mg_quantity := n\<rparr> else r) t) = Some r'
        \<and> mg_product r' = p \<and> mg_quantity r' = n"
  by (induction t) auto

lemma decreaseQuantity_found:
  assumes "\<exists>r \<in> set (mg_table st). mg_product r = p"
  shows "\<exists>r' st'. ManagementService_decreaseQuantity p n st = (Some r', st')
           \<and> mg_cache st' (''management:'' @ p) = None
           \<and> find (\<lambda>r. mg_product r = p) (mg_table st') = Some r'
           \<and> mg_product r' = p \<and> mg_quantity r' = n"
proof -
  from find_after_update [OF assms, of n] obtain r' where
    r': "find (\<lambda>r. mg_product r = p)
          (map (\<lambda>r. if mg_product r = p then r\<lparr>mg_quantity := n\<rparr> else r) (mg_table st)) = Some r'"
      "mg_product r' = p" "mg_quantity r' = n"
    by blast
  then show ?thesis
    by (simp add: ManagementService_decreaseQuantity_def ManagementModel_decreaseQuantity_def)
qed

lemma get_product_from_table:
  assumes "mg_cache st (''management:'' @ p) = None"
    and "find (\<lambda>r. mg_product r = p) (mg_table st) = Some r"
  shows "fst (management_get_product p st) =
           respond 200 (JObj [(''product'', JStr (mg_product r)), (''quantity'', JNum (mg_quantity r))])"
  using assms
  by (simp add: management_get_product_def ManagementService_getManagementByProduct_def
      ManagementModel_getByProduct_def)

text \<open>After \<^verbatim>\<open>PUT /management/product\<close> has set the quantity of a product of the
  table, \<^verbatim>\<open>GET /management/product\<close> reads that quantity, whatever the cache held.\<close>

lemma put_then_get_product:
  assumes "validate req_body = Inr (p, n)"
    and "\<exists>r \<in> set (mg_table st). mg_product r = p"
  shows "case management_put_product validate req_body st of
           (resp, st') \<Rightarrow>
             status resp = 200 \<and>
             fst (management_get_product p st') =
               respond 200 (JObj [(''product'', JStr p), (''quantity'', JNum n)])"
proof -
  from decreaseQuantity_found [OF assms(2), of n] obtain r' st' where
    d: "ManagementService_decreaseQuantity p n st = (Some r', st')"
      "mg_cache st' (''management:'' @ p) = None"
      "find (\<lambda>r. mg_product r = p) (mg_table st') = Some r'"
      "mg_product r' = p" "mg_quantity r' = n"
    by blast
  have "management_put_product validate req_body st = (respond 200 (json_of_management_row r'), st')"
    using assms(1) d(1) by (simp add: management_put_product_def)
  moreover have "fst (management_get_product p st') =
      respond 200 (JObj [(''product'', JStr p), (''quantity'', JNum n)])"
    using get_product_from_table [OF d(2) d(3)] d(4) d(5) by simp
  ultimately show ?thesis by (simp add: respond_def)
qed

text \<open>A product that is neither in the cache nor in the table is reported with the
  quantity \<open>-1\<close>, and the state stays as it is.\<close>

lemma get_product_untracked:
  assumes "mg_cache st (''management:'' @ p) = None"
    and "\<forall>r \<in> set (mg_table st). mg_product r \<noteq> p"
  shows "management_get_product p st = (respond 200 (JObj [(''quantity'', JNum (- 1))]), st)"
proof -
  have "find (\<lambda>r. mg_product r = p) (mg_table st) = None"
    using assms(2) by (simp add: find_None_iff)
  then show ?thesis using assms(1)
    by (simp add: management_get_product_def ManagementService_getManagementByProduct_def
        ManagementModel_getByProduct_def)
qed

subsection \<open>Claims on the order placement\<close>

text \<open>
  C1. The claim: when the inventory check returns the quantity \<open>-1\<close>, the order placement
  skips the decrement, still creates the order through the orders breaker and answers 201
  with the created order. The handler does not do this: for the request
  \<^verbatim>\<open>{user_id: 1, product: "widget"}\<close> and the inventory payload \<^verbatim>\<open>{quantity: -1}\<close> it
  reaches \<^verbatim>\<open>res.status(201).json(order)\<close> in a branch where no order was created and
  \<^verbatim>\<open>order\<close> is not in scope; the read throws, and the answer is 500 with
  \<^verbatim>\<open>{error: 'POST /orders error'}\<close>. The inventory check is the only call: neither the
  order creation nor the decrement is fired, whatever they would have returned.
\<close>

theorem untracked_quantity_answers_500:
  "post_orders (JObj [(''user_id'', JNum 1), (''product'', JStr ''widget'')])
     (Resolved (JObj [(''quantity'', JNum (- 1))])) created decreased =
   (respond 500 (JObj [(''error'', JStr ''POST /orders error'')]),
    [mk_call Management GET ''/management/product?product=widget'' None])"
  using post_orders_not_positive [of "JObj [(''user_id'', JNum 1), (''product'', JStr ''widget'')]"
      "JStr ''widget''" "JObj [(''quantity'', JNum (- 1))]" "JNum (- 1)" "- 1" created decreased]
  by (simp add: parseInt_JNum post_orders_error_def)

text \<open>
  C2, as stated, fails: with an observed quantity of 5, when the orders breaker answers the
  order creation with its fallback payload, the handler goes on, fires the inventory update
  with the quantity 4 and answers 201 with the fallback payload.
\<close>

theorem order_fallback_still_decrements:
  "post_orders (JObj [(''user_id'', JNum 1), (''product'', JStr ''widget'')])
     (Resolved (JObj [(''quantity'', JNum 5)])) (Resolved (fallback Orders))
     (Resolved (JObj [(''id'', JNum 1), (''product'', JStr ''widget''), (''quantity'', JNum 4)])) =
   (respond 201 (JObj [(''error'', JStr ''Orders service temporarily unavailable'')]),
    [mk_call Management GET ''/management/product?product=widget'' None,
     mk_call Orders POST ''/orders'' (Some (JObj [(''user_id'', JNum 1), (''product'', JStr ''widget'')])),
     mk_call Management PUT ''/management/product''
       (Some (JObj [(''product'', JStr ''widget''), (''quantity'', JNum 4)]))])"
  using post_orders_positive [of "JObj [(''user_id'', JNum 1), (''product'', JStr ''widget'')]"
      "JStr ''widget''" "JObj [(''quantity'', JNum 5)]" "JNum 5" 5
      "Resolved (fallback Orders)"
      "Resolved (JObj [(''id'', JNum 1), (''product'', JStr ''widget''), (''quantity'', JNum 4)])"]
  by (simp add: parseInt_JNum)

text \<open>
  C2, amended. For every order placement whose inventory check observed a quantity greater
  than 0: when the \<^verbatim>\<open>fire\<close> call of the order creation is rejected, the answer is 500 and
  the calls made are the inventory check and the order creation only, so no inventory
  update is issued; when it resolves with the fallback payload of the orders breaker, the
  inventory update with the quantity less one is issued and, once it resolves, the answer is
  201 with the fallback payload.
\<close>

theorem order_creation_failure:
  assumes "get_field req_body ''product'' = Inr product"
    and "get_field management ''quantity'' = Inr qv"
    and "parseInt qv = Some q"
    and "0 < q"
  shows "post_orders req_body (Resolved management) (Rejected e) decreased =
           (respond 500 (JObj [(''error'', JStr ''POST /orders error'')]),
            [mk_call Management GET (''/management/product?product='' @ js_toString product) None,
             mk_call Orders POST ''/orders'' (Some req_body)])
       \<and> post_orders req_body (Resolved management) (Resolved (fallback Orders)) (Resolved d) =
           (respond 201 (fallback Orders),
            [mk_call Management GET (''/management/product?product='' @ js_toString product) None,
             mk_call Orders POST ''/orders'' (Some req_body),
             mk_call Management PUT ''/management/product''
               (Some (JObj [(''product'', product), (''quantity'', JNum (q - 1))]))])"
  using post_orders_positive [OF assms, of "Rejected e" decreased]
    post_orders_positive [OF assms, of "Resolved (fallback Orders)" "Resolved d"]
  by (simp add: post_orders_error_def)

theorem order_creation_failure_witness:
  "get_field (JObj [(''user_id'', JNum 1), (''product'', JStr ''widget'')]) ''product'' = Inr (JStr ''widget'')
   \<and> get_field (JObj [(''quantity'', JNum 5)]) ''quantity'' = Inr (JNum 5)
   \<and> parseInt (JNum 5) = Some 5
   \<and> (0::int) < 5
   \<and> post_orders (JObj [(''user_id'', JNum 1), (''product'', JStr ''widget'')])
        (Resolved (JObj [(''quantity'', JNum 5)])) (Rejected (JStr ''timeout'')) (Resolved JNull) =
       (respond 500 (JObj [(''error'', JStr ''POST /orders error'')]),
        [mk_call Management GET ''/management/product?product=widget'' None,
         mk_call Orders POST ''/orders'' (Some (JObj [(''user_id'', JNum 1), (''product'', JStr ''widget'')]))])"
  using order_creation_failure [of "JObj [(''user_id'', JNum 1), (''product'', JStr ''widget'')]"
      "JStr ''widget''" "JObj [(''quantity'', JNum 5)]" "JNum 5" 5 "JStr ''timeout''" "Resolved JNull" JNull]
  by (simp add: parseInt_JNum)

text \<open>
  C8. For every order placement whose inventory check observes a quantity \<open>q\<close> greater
  than 0 and whose two further calls resolve, the answer is 201 with the payload of the
  order creation, and the calls are the inventory check, the order creation and an inventory
  update that sets the quantity of the product to \<open>q - 1\<close>. When the management service
  accepts that update for a product of its table, it answers 200, and the next inventory
  read for the product gives the quantity \<open>q - 1\<close>.
\<close>

theorem order_placed_and_inventory_decremented:
  assumes "get_field req_body ''product'' = Inr (JStr p)"
    and "get_field management ''quantity'' = Inr qv"
    and "parseInt qv = Some q"
    and "0 < q"
    and "validate (JObj [(''product'', JStr p), (''quantity'', JNum (q - 1))]) = Inr (p, q - 1)"
    and "\<exists>r \<in> set (mg_table st). mg_product r = p"
  shows "post_orders req_body (Resolved management) (Resolved order) (Resolved decreaseQuantity) =
           (respond 201 order,
            [mk_call Management GET (''/management/product?product='' @ p) None,
             mk_call Orders POST ''/orders'' (Some req_body),
             mk_call Management PUT ''/management/product''
               (Some (JObj [(''product'', JStr p), (''quantity'', JNum (q - 1))]))])
       \<and> (case management_put_product validate
                  (JObj [(''product'', JStr p), (''quantity'', JNum (q - 1))]) st of
             (resp, st') \<Rightarrow>
               status resp = 200 \<and>
               fst (management_get_product p st') =
                 respond 200 (JObj [(''product'', JStr p), (''quantity'', JNum (q - 1))]))"
proof
  show "post_orders req_body (Resolved management) (Resolved order) (Resolved decreaseQuantity) =
           (respond 201 order,
            [mk_call Management GET (''/management/product?product='' @ p) None,
             mk_call Orders POST ''/orders'' (Some req_body),
             mk_call Management PUT ''/management/product''
               (Some (JObj [(''product'', JStr p), (''quantity'', JNum (q - 1))]))])"
    using post_orders_positive [OF assms(1-4), of "Resolved order" "Resolved decreaseQuantity"]
    by simp
  show "case management_put_product validate
                  (JObj [(''product'', JStr p), (''quantity'', JNum (q - 1))]) st of
             (resp, st') \<Rightarrow>
               status resp = 200 \<and>
               fst (management_get_product p st') =
                 respond 200 (JObj [(''product'', JStr p), (''quantity'', JNum (q - 1))])"
    using put_then_get_product [of validate "JObj [(''product'', JStr p), (''quantity'', JNum (q - 1))]"
        p "q - 1" st] assms(5) assms(6)
    by simp
qed

theorem order_placed_and_inventory_decremented_witness:
  "get_field (JObj [(''user_id'', JNum 1), (''product'', JStr ''widget'')]) ''product'' = Inr (JStr ''widget'')
   \<and> get_field (JObj [(''product'', JStr ''widget''), (''quantity'', JNum 5)]) ''quantity'' = Inr (JNum 5)
   \<and> parseInt (JNum 5) = Some 5
   \<and> (0::int) < 5
   \<and> (\<lambda>b. Inr (''widget'', 4)) (JObj [(''product'', JStr ''widget''), (''quantity'', JNum (5 - 1))])
        = (Inr (''widget'', 5 - 1) :: string + string \<times> int)
   \<and> (\<exists>r \<in> set (mg_table \<lparr>mg_table = [\<lparr>mg_id = 1, mg_product = ''widget'', mg_quantity = 5\<rparr>],
                               mg_cache = Map.empty\<rparr>). mg_product r = ''widget'')
   \<and> post_orders (JObj [(''user_id'', JNum 1), (''product'', JStr ''widget'')])
        (Resolved (JObj [(''product'', JStr ''widget''), (''quantity'', JNum 5)]))
        (Resolved (JObj [(''id'', JNum 1), (''user_id'', JNum 1), (''product'', JStr ''widget'')]))
        (Resolved (JObj [(''id'', JNum 1), (''product'', JStr ''widget''), (''quantity'', JNum 4)])) =
       (respond 201 (JObj [(''id'', JNum 1), (''user_id'', JNum 1), (''product'', JStr ''widget'')]),
        [mk_call Management GET ''/management/product?product=widget'' None,
         mk_call Orders POST ''/orders'' (Some (JObj [(''user_id'', JNum 1), (''product'', JStr ''widget'')])),
         mk_call Management PUT ''/management/product''
           (Some (JObj [(''product'', JStr ''widget''), (''quantity'', JNum 4)]))])
   \<and> (case management_put_product (\<lambda>b. Inr (''widget'', 4))
              (JObj [(''product'', JStr ''widget''), (''quantity'', JNum 4)])
              \<lparr>mg_table = [\<lparr>mg_id = 1, mg_product = ''widget'', mg_quantity = 5\<rparr>],
               mg_cache = Map.empty\<rparr> of
         (resp, st') \<Rightarrow>
           status resp = 200 \<and>
           fst (management_get_product ''widget'' st') =
             respond 200 (JObj [(''product'', JStr ''widget''), (''quantity'', JNum 4)]))"
  using order_placed_and_inventory_decremented
    [of "JObj [(''user_id'', JNum 1), (''product'', JStr ''widget'')]" "''widget''"
      "JObj [(''product'', JStr ''widget''), (''quantity'', JNum 5)]" "JNum 5" 5
      "\<lambda>b. Inr (''widget'', 4)"
      "\<lparr>mg_table = [\<lparr>mg_id = 1, mg_product = ''widget'', mg_quantity = 5\<rparr>], mg_cache = Map.empty\<rparr>"
      "JObj [(''id'', JNum 1), (''user_id'', JNum 1), (''product'', JStr ''widget'')]"
      "JObj [(''id'', JNum 1), (''product'', JStr ''widget''), (''quantity'', JNum 4)]"]
  by (simp add: parseInt_JNum)

text \<open>
  C9. For every order placement whose inventory check observes the quantity 0, the answer
  is 400 with \<^verbatim>\<open>{error: "Product quantity is 0"}\<close>, and the inventory check is the only
  call: neither an order creation nor an inventory update is issued.
\<close>

theorem depleted_inventory_rejected:
  assumes "get_field req_body ''product'' = Inr product"
    and "get_field management ''quantity'' = Inr qv"
    and "parseInt qv = Some 0"
  shows "post_orders req_body (Resolved management) created decreased =
           (respond 400 (JObj [(''error'', JStr ''Product quantity is 0'')]),
            [mk_call Management GET (''/management/product?product='' @ js_toString product) None])"
  using post_orders_not_positive [OF assms, of created decreased] by simp

theorem depleted_inventory_rejected_witness:
  "get_field (JObj [(''user_id'', JNum 1), (''product'', JStr ''widget'')]) ''product'' = Inr (JStr ''widget'')
   \<and> get_field (JObj [(''product'', JStr ''widget''), (''quantity'', JNum 0)]) ''quantity'' = Inr (JNum 0)
   \<and> parseInt (JNum 0) = Some 0
   \<and> post_orders (JObj [(''user_id'', JNum 1), (''product'', JStr ''widget'')])
        (Resolved (JObj [(''product'', JStr ''widget''), (''quantity'', JNum 0)]))
        (Resolved JNull) (Resolved JNull) =
       (respond 400 (JObj [(''error'', JStr ''Product quantity is 0'')]),
        [mk_call Management GET ''/management/product?product=widget'' None])"
  using depleted_inventory_rejected [of "JObj [(''user_id'', JNum 1), (''product'', JStr ''widget'')]"
      "JStr ''widget''" "JObj [(''product'', JStr ''widget''), (''quantity'', JNum 0)]" "JNum 0"
      "Resolved JNull" "Resolved JNull"]
  by (simp add: parseInt_JNum)


section \<open>The aggregation, by the outcomes of its two calls\<close>

lemma details_user_rejected:
  "fst (users_details loose_eq userId (Rejected e) orders_fired) = internal_server_error"
  by (simp add: users_details_def promise_all_def user_promise_def)

lemma details_orders_rejected:
  "fst (users_details loose_eq userId user_fired (Rejected e)) = internal_server_error"
  by (simp add: users_details_def promise_all_def orders_promise_def split: sum.splits)

lemma details_orders_fallback:
  "fst (users_details loose_eq userId user_fired (Resolved (fallback Orders))) = internal_server_error"
  by (simp add: users_details_def promise_all_def orders_promise_def split: sum.splits)

lemma details_both_resolved:
  assumes "filter_orders loose_eq userId xs = Inr kept"
    and "get_field user ''error'' = Inr v"
  shows "users_details loose_eq userId (Resolved user) (Resolved (JArr xs)) =
           (if v = JStr ''User not found'' then respond 404 user
            else respond 200 (JObj [(''user'', user), (''orders'', JArr kept)]),
            [mk_call Users GET (''/users/'' @ userId) None, mk_call Orders GET ''/orders'' None])"
  using assms
  by (simp add: users_details_def promise_all_def orders_promise_def user_promise_def)

text \<open>The filter goes through on an array without \<^verbatim>\<open>null\<close> elements, as a list of
  orders is.\<close>

lemma filter_orders_objects:
  "\<forall>x \<in> set xs. x \<noteq> JNull \<and> x \<noteq> JUndefined \<Longrightarrow>
   \<exists>kept. filter_orders loose_eq userId xs = Inr kept"
proof (induction xs)
  case Nil
  then show ?case by simp
next
  case (Cons x xs)
  then obtain kept where "filter_orders loose_eq userId xs = Inr kept" by auto
  moreover from Cons.prems obtain uid where "get_field x ''user_id'' = Inr uid"
    by (cases x) auto
  ultimately show ?case by simp
qed

text \<open>
  C4, as stated, fails: when the users breaker answers the user lookup with its fallback
  payload and the order list arrives, the answer is 200, with the fallback payload in the
  place of the user and the orders of the user beside it.
\<close>

theorem users_fallback_gives_partial_result:
  "users_details (=) ''7'' (Resolved (fallback Users))
     (Resolved (JArr [JObj [(''id'', JNum 1), (''user_id'', JStr ''7''), (''product'', JStr ''widget'')],
                      JObj [(''id'', JNum 2), (''user_id'', JStr ''9''), (''product'', JStr ''gadget'')]])) =
   (respond 200
      (JObj [(''user'', JObj [(''error'', JStr ''Users service temporarily unavailable'')]),
             (''orders'', JArr [JObj [(''id'', JNum 1), (''user_id'', JStr ''7''), (''product'', JStr ''widget'')]])]),
    [mk_call Users GET ''/users/7'' None, mk_call Orders GET ''/orders'' None])"
  by (simp add: users_details_def promise_all_def orders_promise_def user_promise_def)

text \<open>
  C4, amended. For every request of the details of a user: when the \<^verbatim>\<open>fire\<close> call of
  the user lookup or of the order list is rejected, or the order list resolves with the
  fallback payload of the orders breaker, the answer is 500 with
  \<^verbatim>\<open>{error: 'Internal server error'}\<close>, and nothing of a result is in it. When the user
  lookup resolves with the fallback payload of the users breaker and the order list with an
  array that the filter goes through, the answer is 200 with the fallback payload as the
  user and the filtered orders.
\<close>

theorem details_failure_outcomes:
  "fst (users_details loose_eq userId (Rejected e) orders_fired) = respond 500 (JObj [(''error'', JStr ''Internal server error'')])
   \<and> fst (users_details loose_eq userId user_fired (Rejected e)) = respond 500 (JObj [(''error'', JStr ''Internal server error'')])
   \<and> fst (users_details loose_eq userId user_fired (Resolved (fallback Orders))) = respond 500 (JObj [(''error'', JStr ''Internal server error'')])
   \<and> (filter_orders loose_eq userId xs = Inr kept \<longrightarrow>
        fst (users_details loose_eq userId (Resolved (fallback Users)) (Resolved (JArr xs))) =
          respond 200 (JObj [(''user'', fallback Users), (''orders'', JArr kept)]))"
  using details_user_rejected [of loose_eq userId e orders_fired]
    details_orders_rejected [of loose_eq userId user_fired e]
    details_orders_fallback [of loose_eq userId user_fired]
    details_both_resolved [of loose_eq userId xs kept "fallback Users"]
  by (simp add: internal_server_error_def)

theorem details_failure_outcomes_witness:
  "filter_orders (=) ''7'' [JObj [(''user_id'', JStr ''9'')], JObj [(''user_id'', JStr ''7'')]]
     = Inr [JObj [(''user_id'', JStr ''7'')]]
   \<and> fst (users_details (=) ''7'' (Resolved (fallback Users))
            (Resolved (JArr [JObj [(''user_id'', JStr ''9'')], JObj [(''user_id'', JStr ''7'')]]))) =
       respond 200 (JObj [(''user'', fallback Users), (''orders'', JArr [JObj [(''user_id'', JStr ''7'')]])])
   \<and> fst (users_details (=) ''7'' (Rejected (JStr ''timeout'')) (Resolved (JArr []))) = respond 500 (JObj [(''error'', JStr ''Internal server error'')])"
  using details_failure_outcomes [of "(=)" "''7''" "JStr ''timeout''" "Resolved (JArr [])"
      "Resolved JNull" "[JObj [(''user_id'', JStr ''9'')], JObj [(''user_id'', JStr ''7'')]]"
      "[JObj [(''user_id'', JStr ''7'')]]"]
  by simp

text \<open>
  C5, as stated, fails: when the user lookup resolves with the payload of a user that is
  not found, and the orders breaker answers the order list with its fallback payload or the
  call of the order list is rejected, the answer is 500, not 404.
\<close>

theorem user_not_found_but_orders_failed:
  "users_details (=) ''7'' (Resolved (JObj [(''error'', JStr ''User not found'')]))
     (Resolved (fallback Orders)) =
   (respond 500 (JObj [(''error'', JStr ''Internal server error'')]),
    [mk_call Users GET ''/users/7'' None, mk_call Orders GET ''/orders'' None])
   \<and> users_details (=) ''7'' (Resolved (JObj [(''error'', JStr ''User not found'')]))
     (Rejected (JStr ''timeout'')) =
   (respond 500 (JObj [(''error'', JStr ''Internal server error'')]),
    [mk_call Users GET ''/users/7'' None, mk_call Orders GET ''/orders'' None])"
  by (simp add: users_details_def promise_all_def orders_promise_def user_promise_def
      internal_server_error_def)

text \<open>
  C5, amended. For every request of the details of a user whose lookup resolves with the
  payload of a user that is not found: when the order list resolves with an array that the
  filter goes through, the answer is 404 with the payload of the user lookup, and the
  orders are discarded; when the call of the order list is rejected, or resolves with the
  fallback payload of the orders breaker, the answer is 500.
\<close>

theorem user_not_found_outcomes:
  assumes "get_field user ''error'' = Inr (JStr ''User not found'')"
  shows "(filter_orders loose_eq userId xs = Inr kept \<longrightarrow>
            fst (users_details loose_eq userId (Resolved user) (Resolved (JArr xs))) = respond 404 user)
       \<and> fst (users_details loose_eq userId (Resolved user) (Rejected e)) = respond 500 (JObj [(''error'', JStr ''Internal server error'')])
       \<and> fst (users_details loose_eq userId (Resolved user) (Resolved (fallback Orders))) = respond 500 (JObj [(''error'', JStr ''Internal server error'')])"
  using details_both_resolved [of loose_eq userId xs kept user, OF _ assms]
    details_orders_rejected [of loose_eq userId "Resolved user" e]
    details_orders_fallback [of loose_eq userId "Resolved user"]
  by (simp add: internal_server_error_def)

theorem user_not_found_outcomes_witness:
  "get_field (JObj [(''error'', JStr ''User not found'')]) ''error'' = Inr (JStr ''User not found'')
   \<and> filter_orders (=) ''7'' [JObj [(''user_id'', JStr ''7'')]] = Inr [JObj [(''user_id'', JStr ''7'')]]
   \<and> fst (users_details (=) ''7'' (Resolved (JObj [(''error'', JStr ''User not found'')]))
            (Resolved (JArr [JObj [(''user_id'', JStr ''7'')]]))) =
       respond 404 (JObj [(''error'', JStr ''User not found'')])
   \<and> fst (users_details (=) ''7'' (Resolved (JObj [(''error'', JStr ''User not found'')]))
            (Resolved (fallback Orders))) = respond 500 (JObj [(''error'', JStr ''Internal server error'')])"
  using user_not_found_outcomes [of "JObj [(''error'', JStr ''User not found'')]" "(=)" "''7''"
      "[JObj [(''user_id'', JStr ''7'')]]" "[JObj [(''user_id'', JStr ''7'')]]" JNull]
  by simp

section \<open>The breaker, once it has opened\<close>

lemma execute_open:
  assumes "phase b = OPEN" and "now - openedAt b \<le> resetInterval p"
  shows "execute p fb now out b = (FellBack fb, b, 0)"
  using assms by (simp add: execute_def admit_def)

lemma step_open:
  assumes "phase b = OPEN" and "event_time ev - openedAt b \<le> resetInterval p"
  shows "step p (b, n) ev = (b, n)"
  using assms by (cases ev) (simp_all add: admit_def settle_def)

lemma run_open:
  assumes "phase b = OPEN" and "\<forall>ev \<in> set evs. event_time ev - openedAt b \<le> resetInterval p"
  shows "run p evs (b, n) = (b, n)"
  using assms(2) unfolding run_def
proof (induction evs)
  case Nil
  then show ?case by simp
next
  case (Cons ev evs)
  then show ?case using step_open [OF assms(1), of ev p n] by simp
qed

lemma settle_trips:
  assumes "phase b = CLOSED" and "tripped p (record_outcome p t0 ok (window b))"
  shows "phase (settle p t0 ok b) = OPEN \<and> openedAt (settle p t0 ok b) = t0"
  using assms by (simp add: settle_def Let_def)

lemma execute_all_open:
  assumes "phase b = OPEN"
    and "\<forall>c \<in> set calls. fst c - openedAt b \<le> resetInterval p"
  shows "execute_all p fb calls b = (replicate (length calls) (FellBack fb), b, 0)"
  using assms(2)
proof (induction calls)
  case Nil
  then show ?case by simp
next
  case (Cons c calls)
  obtain t out where c: "c = (t, out)" by (cases c)
  have "execute p fb t out b = (FellBack fb, b, 0)"
    using Cons.prems c by (intro execute_open [OF assms(1)]) simp
  then show ?case using Cons c by simp
qed

text \<open>
  C3. For every policy with error threshold \<open>T\<close> (a percentage) and minimum volume \<open>M\<close>:
  when the outcome reported to a CLOSED breaker at time \<open>t0\<close> brings the rolling window to at
  least \<open>M\<close> outcomes with a failure ratio of at least \<open>T\<close>, the breaker is OPEN. From then
  on, every \<open>execute\<close> of a sequence of calls within the reset interval of \<open>t0\<close> returns the
  fallback, the downstream is invoked zero times, and the breaker stays as it is. The same
  holds when calls overlap: over every sequence of arrivals of calls and of late outcomes
  within the reset interval, the breaker stays as it is and the count of invocations of the
  downstream does not grow.
\<close>

theorem breaker_opens_and_short_circuits:
  assumes "phase b = CLOSED"
    and "minVolume p \<le> length (record_outcome p t0 ok (window b))"
    and "errorThreshold p * length (record_outcome p t0 ok (window b))
           \<le> 100 * failures_in (record_outcome p t0 ok (window b))"
    and "\<forall>c \<in> set calls. fst c - t0 \<le> resetInterval p"
    and "\<forall>ev \<in> set evs. event_time ev - t0 \<le> resetInterval p"
  shows "phase (settle p t0 ok b) = OPEN
       \<and> execute_all p fb calls (settle p t0 ok b) =
           (replicate (length calls) (FellBack fb), settle p t0 ok b, 0)
       \<and> run p evs (settle p t0 ok b, n) = (settle p t0 ok b, n)"
proof -
  have t: "tripped p (record_outcome p t0 ok (window b))"
    using assms(2,3) by (simp add: tripped_def)
  note s = settle_trips [OF assms(1) t]
  have "run p evs (settle p t0 ok b, n) = (settle p t0 ok b, n)"
    using s assms(5) by (intro run_open) simp_all
  moreover have "execute_all p fb calls (settle p t0 ok b) =
      (replicate (length calls) (FellBack fb), settle p t0 ok b, 0)"
    using s assms(4) by (intro execute_all_open) simp_all
  ultimately show ?thesis using s by simp
qed

theorem breaker_opens_and_short_circuits_witness:
  "phase example_closed = CLOSED
   \<and> minVolume example_policy \<le> length (record_outcome example_policy 900 False example_window)
   \<and> errorThreshold example_policy * length (record_outcome example_policy 900 False example_window)
        \<le> 100 * failures_in (record_outcome example_policy 900 False example_window)
   \<and> fst (1900::nat, Response 200 JNull) - 900 \<le> resetInterval example_policy
   \<and> fst (3900::nat, NetworkError JNull) - 900 \<le> resetInterval example_policy
   \<and> event_time (Arrival 1900) - 900 \<le> resetInterval example_policy
   \<and> event_time (Outcome 1950 True) - 900 \<le> resetInterval example_policy
   \<and> event_time (Arrival 3900) - 900 \<le> resetInterval example_policy
   \<and> settle example_policy 900 False example_closed = example_opened
   \<and> execute_all example_policy (fallback Users) [(1900, Response 200 JNull), (3900, NetworkError JNull)] example_opened =
       ([FellBack (fallback Users), FellBack (fallback Users)], example_opened, 0)
   \<and> run example_policy [Arrival 1900, Outcome 1950 True, Arrival 3900] (example_opened, 10) = (example_opened, 10)"
proof -
  have s: "settle example_policy 900 False example_closed = example_opened"
    by (simp add: settle_def record_outcome_def tripped_def failures_in_def
        example_policy_def example_window_def example_closed_def example_opened_def)
  show ?thesis
    using breaker_opens_and_short_circuits
      [of "example_closed" "example_policy"
        900 False "[(1900, Response 200 JNull), (3900, NetworkError JNull)]"
        "[Arrival 1900, Outcome 1950 True, Arrival 3900]" "fallback Users" 10]
    unfolding s
    by (simp add: record_outcome_def failures_in_def example_policy_def example_window_def
        example_closed_def)
qed

section \<open>What the routes do with a fallback and with a rejection\<close>

lemmas single_route_defs =
  get_user_def get_order_def post_users_def get_users_def delete_user_def put_user_def
  get_orders_def delete_order_def put_order_def get_orders_status_def get_orders_health_def
  get_managements_def put_management_def get_management_product_def get_management_def
  post_management_def

text \<open>A route that makes one call passes the fallback payload of its breaker on as it
  passes any payload on.\<close>

lemma serve_fallback:
  "serve rt (Resolved (fallback (route_circuit rt))) =
     respond (success_status rt) (fallback (route_circuit rt))"
  by (cases rt) (simp_all add: single_route_defs success_status_def)

text \<open>All routes that make one call but \<^verbatim>\<open>GET /management/product\<close> answer a rejected
  call with one of two fixed bodies.\<close>

lemma serve_rejected_generic:
  "rt \<noteq> GetManagementProduct \<Longrightarrow>
   serve rt (Rejected e) = internal_server_error
   \<or> serve rt (Rejected e) = respond 500 (JObj [(''error'', JStr ''/management/:id error'')])"
  by (cases rt) (simp_all add: single_route_defs)

lemma post_orders_management_fallback:
  assumes "get_field req_body ''product'' = Inr product"
  shows "post_orders req_body (Resolved (fallback Management)) created decreased =
           (respond 400 (JObj [(''error'', JStr ''Product quantity is 0'')]),
            [mk_call Management GET (''/management/product?product='' @ js_toString product) None])"
  using assms
  by (simp add: post_orders_def parseInt_undefined js_gt_def js_eq_def)

text \<open>
  C6, as stated, fails: with the users breaker OPEN and a call that arrives 1000 ms after it
  opened, \<open>execute\<close> returns the fallback without an invocation of the downstream, and
  \<^verbatim>\<open>GET /users/:userId\<close> answers 200 with the fallback payload, not 500.
\<close>

theorem open_breaker_answers_200:
  "execute example_policy (fallback Users) 1900 (Response 200 JNull) example_opened = (FellBack (fallback Users), example_opened, 0)
   \<and> serve GetUser (Resolved (fallback Users)) =
       respond 200 (JObj [(''error'', JStr ''Users service temporarily unavailable'')])"
  by (simp add: execute_def admit_def get_user_def example_policy_def example_opened_def)

text \<open>
  C6, amended. For every gateway route, while the breaker of its downstream is OPEN and the
  reset interval has not passed, \<open>execute\<close> makes no invocation of the downstream and
  returns the fallback payload, which names the service that is not available. A route that
  makes one call answers with that payload and its status of success: 200, or 201 for
  \<^verbatim>\<open>POST /users\<close> and \<^verbatim>\<open>POST /management\<close>. The order placement, given the fallback
  payload of the management breaker, answers 400 with \<^verbatim>\<open>{error: 'Product quantity is 0'}\<close>
  and makes no further call. The aggregation answers 500 with
  \<^verbatim>\<open>{error: 'Internal server error'}\<close> given the fallback payload of the orders breaker,
  and 200 with the fallback payload as the user given that of the users breaker and an
  order list that the filter goes through.
\<close>

theorem open_breaker_fallback_passed_on:
  assumes "phase b = OPEN"
    and "now - openedAt b \<le> resetInterval p"
  shows "execute p (fallback (route_circuit rt)) now out b =
           (FellBack (fallback (route_circuit rt)), b, 0)
       \<and> serve rt (Resolved (fallback (route_circuit rt))) =
           respond (success_status rt) (fallback (route_circuit rt))
       \<and> (get_field req_body ''product'' = Inr product \<longrightarrow>
            post_orders req_body (Resolved (fallback Management)) created decreased =
              (respond 400 (JObj [(''error'', JStr ''Product quantity is 0'')]),
               [mk_call Management GET (''/management/product?product='' @ js_toString product) None]))
       \<and> fst (users_details loose_eq userId user_fired (Resolved (fallback Orders))) = respond 500 (JObj [(''error'', JStr ''Internal server error'')])
       \<and> (filter_orders loose_eq userId xs = Inr kept \<longrightarrow>
            fst (users_details loose_eq userId (Resolved (fallback Users)) (Resolved (JArr xs))) =
              respond 200 (JObj [(''user'', fallback Users), (''orders'', JArr kept)]))"
  using execute_open [OF assms, of "fallback (route_circuit rt)" out]
    serve_fallback [of rt]
    post_orders_management_fallback [of req_body product created decreased]
    details_orders_fallback [of loose_eq userId user_fired]
    details_both_resolved [of loose_eq userId xs kept "fallback Users"]
  by (simp add: internal_server_error_def)

theorem open_breaker_fallback_passed_on_witness:
  "phase example_opened = OPEN
   \<and> (1900::nat) - openedAt example_opened \<le> resetInterval example_policy
   \<and> execute example_policy (fallback (route_circuit PostUsers)) 1900 (Response 201 JNull) example_opened =
       (FellBack (fallback Users), example_opened, 0)
   \<and> serve PostUsers (Resolved (fallback (route_circuit PostUsers))) =
       respond 201 (JObj [(''error'', JStr ''Users service temporarily unavailable'')])
   \<and> get_field (JObj [(''user_id'', JNum 1), (''product'', JStr ''widget'')]) ''product'' = Inr (JStr ''widget'')
   \<and> post_orders (JObj [(''user_id'', JNum 1), (''product'', JStr ''widget'')])
        (Resolved (fallback Management)) (Resolved JNull) (Resolved JNull) =
       (respond 400 (JObj [(''error'', JStr ''Product quantity is 0'')]),
        [mk_call Management GET ''/management/product?product=widget'' None])
   \<and> filter_orders (=) ''7'' [] = Inr []
   \<and> fst (users_details (=) ''7'' (Resolved (fallback Users)) (Resolved (JArr []))) =
       respond 200 (JObj [(''user'', fallback Users), (''orders'', JArr [])])"
  using open_breaker_fallback_passed_on
    [of "example_opened" 1900 "example_policy" PostUsers "Response 201 JNull"
      "JObj [(''user_id'', JNum 1), (''product'', JStr ''widget'')]" "JStr ''widget''"
      "Resolved JNull" "Resolved JNull" "(=)" "''7''" "Resolved JNull" "[]" "[]"]
  by (simp add: success_status_def example_policy_def example_opened_def)

text \<open>The \<^verbatim>\<open>catch\<close> block of \<^verbatim>\<open>GET /management/product\<close> answers with the caught
  value, where the other routes answer with a fixed message. It is not reached by a failure
  of the downstream, since no promise of \<^verbatim>\<open>fire\<close> is rejected (see below).\<close>

lemma caught_error_is_returned:
  "serve GetManagementProduct (Rejected e) = respond 500 (JObj [(''error'', e)])"
  by (simp add: get_management_product_def)

section \<open>Failures and the bodies of the answers\<close>

text \<open>The promise of \<^verbatim>\<open>fire\<close> is never rejected; a call that failed or was not
  attempted resolves with the fallback payload, and a call that succeeded with its payload.\<close>

lemma fire_resolves: "\<exists>v. fst (fire p c now out b) = Resolved v"
  by (auto simp add: fire_def execute_def Let_def split: prod.splits exec_result.splits sum.splits bool.splits)

lemma fire_failed:
  assumes "isl (circuit_action out) \<or> \<not> fst (admit p now b)"
  shows "fst (fire p c now out b) = Resolved (fallback c)"
  using assms
  by (cases "admit p now b"; cases "circuit_action out")
     (auto simp add: fire_def execute_def Let_def split: bool.splits)

lemma fire_succeeded:
  assumes "circuit_action out = Inr v" and "fst (admit p now b)"
  shows "fst (fire p c now out b) = Resolved v"
  using assms
  by (cases "admit p now b") (auto simp add: fire_def execute_def Let_def split: bool.splits)

text \<open>Given payloads, the body of an answer is a payload or one of the fixed messages.\<close>

lemma serve_resolved_body:
  "body (serve rt (Resolved v)) = v \<or> serve rt (Resolved v) = internal_server_error"
  by (cases rt) (simp_all add: single_route_defs respond_def split: sum.splits)

lemma post_orders_resolved_bodies:
  "fst (post_orders req_body (Resolved m) (Resolved order) (Resolved d)) = post_orders_error
   \<or> fst (post_orders req_body (Resolved m) (Resolved order) (Resolved d)) =
        respond 400 (JObj [(''error'', JStr ''Product quantity is 0'')])
   \<or> fst (post_orders req_body (Resolved m) (Resolved order) (Resolved d)) = respond 201 order"
  by (simp add: post_orders_def Let_def read_ident_def split: sum.splits)

lemma details_resolved_bodies:
  "fst (users_details loose_eq userId (Resolved user) (Resolved orders)) = internal_server_error
   \<or> fst (users_details loose_eq userId (Resolved user) (Resolved orders)) = respond 404 user
   \<or> (\<exists>kept. fst (users_details loose_eq userId (Resolved user) (Resolved orders)) =
         respond 200 (JObj [(''user'', user), (''orders'', JArr kept)]))"
  by (auto simp add: users_details_def promise_all_def user_promise_def orders_promise_def Let_def
      split: sum.splits json.splits)


text \<open>
  C7. For every gateway route and every failure of a call to a downstream (the wrapped
  function throws, whatever the error, or the breaker does not attempt the call),
  \<^verbatim>\<open>fire\<close> resolves with the fallback payload of the breaker, a fixed value, and the
  answer is a fixed one in which nothing of the error is: a route that makes one call
  answers with the fallback payload (so does \<^verbatim>\<open>GET /management/product\<close>); the order
  placement answers 400 with \<^verbatim>\<open>{error: 'Product quantity is 0'}\<close> when the inventory
  check failed, 201 with the fallback payload when the order creation failed, and 201 with
  the order when the inventory update failed; the aggregation answers 500 with
  \<^verbatim>\<open>{error: 'Internal server error'}\<close> when the order list failed, and 200 with the
  fallback payload as the user when the user lookup failed. No promise of \<^verbatim>\<open>fire\<close> is
  rejected, whatever the call; and given payloads, the errors that the handlers throw
  themselves are answered with fixed messages: the body of every answer is a payload of a
  downstream, a fallback payload or a fixed message.
\<close>

theorem failure_never_reaches_the_caller:
  assumes "isl (circuit_action out) \<or> \<not> fst (admit p now b)"
  shows "fst (fire p c now out b) = Resolved (fallback c)
       \<and> serve rt (fst (fire p (route_circuit rt) now out b)) =
           respond (success_status rt) (fallback (route_circuit rt))
       \<and> (get_field req_body ''product'' = Inr product \<longrightarrow>
            post_orders req_body (fst (fire p Management now out b)) created decreased =
              (respond 400 (JObj [(''error'', JStr ''Product quantity is 0'')]),
               [mk_call Management GET (''/management/product?product='' @ js_toString product) None]))
       \<and> (get_field req_body ''product'' = Inr product \<and> get_field management ''quantity'' = Inr qv
             \<and> parseInt qv = Some q \<and> 0 < q \<longrightarrow>
            fst (post_orders req_body (Resolved management) (fst (fire p Orders now out b))
                   (fst (fire p' Management now' out' b'))) = respond 201 (fallback Orders)
            \<and> fst (post_orders req_body (Resolved management) (Resolved order)
                     (fst (fire p Management now out b))) = respond 201 order)
       \<and> fst (users_details loose_eq userId user_fired (fst (fire p Orders now out b))) =
           respond 500 (JObj [(''error'', JStr ''Internal server error'')])
       \<and> (filter_orders loose_eq userId xs = Inr kept \<longrightarrow>
            fst (users_details loose_eq userId (fst (fire p Users now out b)) (Resolved (JArr xs))) =
              respond 200 (JObj [(''user'', fallback Users), (''orders'', JArr kept)]))
       \<and> (\<exists>v. fst (fire p' c' now' out' b') = Resolved v)
       \<and> (body (serve rt (Resolved v)) = v
            \<or> serve rt (Resolved v) = respond 500 (JObj [(''error'', JStr ''Internal server error'')]))
       \<and> (fst (post_orders req_body (Resolved m) (Resolved order) (Resolved d)) =
              respond 500 (JObj [(''error'', JStr ''POST /orders error'')])
            \<or> fst (post_orders req_body (Resolved m) (Resolved order) (Resolved d)) =
              respond 400 (JObj [(''error'', JStr ''Product quantity is 0'')])
            \<or> fst (post_orders req_body (Resolved m) (Resolved order) (Resolved d)) = respond 201 order)
       \<and> (fst (users_details loose_eq userId (Resolved user) (Resolved orders)) =
              respond 500 (JObj [(''error'', JStr ''Internal server error'')])
            \<or> fst (users_details loose_eq userId (Resolved user) (Resolved orders)) = respond 404 user
            \<or> (\<exists>kept. fst (users_details loose_eq userId (Resolved user) (Resolved orders)) =
                  respond 200 (JObj [(''user'', user), (''orders'', JArr kept)])))"
proof -
  note f = fire_failed [OF assms]
  obtain v3 where v3: "fst (fire p' Management now' out' b') = Resolved v3"
    using fire_resolves by blast
  have 1: "fst (fire p c now out b) = Resolved (fallback c)" by (rule f)
  have 2: "serve rt (fst (fire p (route_circuit rt) now out b)) =
           respond (success_status rt) (fallback (route_circuit rt))"
    by (simp add: f serve_fallback)
  have 3: "get_field req_body ''product'' = Inr product \<longrightarrow>
            post_orders req_body (fst (fire p Management now out b)) created decreased =
              (respond 400 (JObj [(''error'', JStr ''Product quantity is 0'')]),
               [mk_call Management GET (''/management/product?product='' @ js_toString product) None])"
    using post_orders_management_fallback [of req_body product created decreased]
    by (simp add: f)
  have 4: "get_field req_body ''product'' = Inr product \<and> get_field management ''quantity'' = Inr qv
             \<and> parseInt qv = Some q \<and> 0 < q \<longrightarrow>
            fst (post_orders req_body (Resolved management) (fst (fire p Orders now out b))
                   (fst (fire p' Management now' out' b'))) = respond 201 (fallback Orders)
            \<and> fst (post_orders req_body (Resolved management) (Resolved order)
                     (fst (fire p Management now out b))) = respond 201 order"
    using post_orders_positive [of req_body product management qv q "Resolved (fallback Orders)" "Resolved v3"]
      post_orders_positive [of req_body product management qv q "Resolved order" "Resolved (fallback Management)"]
    by (simp add: f v3)
  have 5: "fst (users_details loose_eq userId user_fired (fst (fire p Orders now out b))) =
           respond 500 (JObj [(''error'', JStr ''Internal server error'')])"
    using details_orders_fallback [of loose_eq userId user_fired]
    by (simp add: f internal_server_error_def)
  have 6: "filter_orders loose_eq userId xs = Inr kept \<longrightarrow>
            fst (users_details loose_eq userId (fst (fire p Users now out b)) (Resolved (JArr xs))) =
              respond 200 (JObj [(''user'', fallback Users), (''orders'', JArr kept)])"
    using details_both_resolved [of loose_eq userId xs kept "fallback Users"]
    by (simp add: f)
  have 7: "\<exists>v. fst (fire p' c' now' out' b') = Resolved v" by (rule fire_resolves)
  have 8: "body (serve rt (Resolved v)) = v
            \<or> serve rt (Resolved v) = respond 500 (JObj [(''error'', JStr ''Internal server error'')])"
    using serve_resolved_body [of rt v] by (simp add: internal_server_error_def)
  have 9: "fst (post_orders req_body (Resolved m) (Resolved order) (Resolved d)) =
              respond 500 (JObj [(''error'', JStr ''POST /orders error'')])
            \<or> fst (post_orders req_body (Resolved m) (Resolved order) (Resolved d)) =
              respond 400 (JObj [(''error'', JStr ''Product quantity is 0'')])
            \<or> fst (post_orders req_body (Resolved m) (Resolved order) (Resolved d)) = respond 201 order"
    using post_orders_resolved_bodies [of req_body m order d] by (simp add: post_orders_error_def)
  have 10: "fst (users_details loose_eq userId (Resolved user) (Resolved orders)) =
              respond 500 (JObj [(''error'', JStr ''Internal server error'')])
            \<or> fst (users_details loose_eq userId (Resolved user) (Resolved orders)) = respond 404 user
            \<or> (\<exists>kept. fst (users_details loose_eq userId (Resolved user) (Resolved orders)) =
                  respond 200 (JObj [(''user'', user), (''orders'', JArr kept)]))"
    using details_resolved_bodies [of loose_eq userId user orders] by (simp add: internal_server_error_def)
  from 1 2 3 4 5 6 7 8 9 10 show ?thesis by blast
qed

theorem failure_never_reaches_the_caller_witness:
  "isl (circuit_action (Response 500 (JObj [(''error'', JStr ''connect ECONNREFUSED 10.0.0.5:5432'')])))
   \<and> fst (fire example_policy Management 900
            (Response 500 (JObj [(''error'', JStr ''connect ECONNREFUSED 10.0.0.5:5432'')]))
            example_closed) = Resolved (fallback Management)
   \<and> serve GetManagementProduct
        (fst (fire example_policy (route_circuit GetManagementProduct) 900
               (Response 500 (JObj [(''error'', JStr ''connect ECONNREFUSED 10.0.0.5:5432'')]))
               example_closed)) =
       respond 200 (JObj [(''error'', JStr ''Management service temporarily unavailable'')])"
proof -
  have a: "isl (circuit_action (Response 500 (JObj [(''error'', JStr ''connect ECONNREFUSED 10.0.0.5:5432'')])))"
    by (simp add: circuit_action_def validateStatus_def)
  note t = failure_never_reaches_the_caller
    [where out = "Response 500 (JObj [(''error'', JStr ''connect ECONNREFUSED 10.0.0.5:5432'')])"
       and p = example_policy and now = 900 and b = example_closed and c = Management
       and rt = GetManagementProduct, OF disjI1 [OF a]]
  from a t [THEN conjunct1] t [THEN conjunct2, THEN conjunct1]
  show ?thesis by (simp add: success_status_def)
qed

section \<open>Listing the orders\<close>

lemma getAll_empty:
  "or_rows db = [] \<Longrightarrow> OrderModel_getAll db = ([], \<lparr>or_rows = [], or_next_id = 1\<rparr>)"
  by (simp add: OrderModel_getAll_def)

text \<open>
  C10. Reading the list of all orders changes the store: whenever \<^verbatim>\<open>OrderModel.getAll\<close>
  finds the table empty it truncates it and restarts the identity, so the sequence is back
  at 1 whatever it was. A \<^verbatim>\<open>GET /\<close> of the orders service on an empty table (with no
  list in the cache) therefore answers 404 and leaves the sequence at 1. Identifiers are
  used again: after an order is created in a new store and deleted, the table is empty, and
  an order created after a listing gets the identifier of the deleted one, where without
  the listing it gets another.
\<close>

theorem getAll_restarts_identity:
  "(or_rows db = [] \<longrightarrow> OrderModel_getAll db = ([], \<lparr>or_rows = [], or_next_id = 1\<rparr>))
   \<and> (or_rows (or_db st) = [] \<and> or_all_cached st = None \<longrightarrow>
        orders_get_all st =
          (respond 404 (JObj [(''error'', JStr ''Orders not found'')]),
           \<lparr>or_db = \<lparr>or_rows = [], or_next_id = 1\<rparr>, or_all_cached = None\<rparr>))
   \<and> (case OrderModel_create d1 empty_orders_db of
         (o1, db1) \<Rightarrow>
           (case OrderModel_delete (or_id o1) db1 of
              (deleted, db2) \<Rightarrow>
                or_rows db2 = []
                \<and> or_id (fst (OrderModel_create d2 (snd (OrderModel_getAll db2)))) = or_id o1
                \<and> or_id (fst (OrderModel_create d2 db2)) \<noteq> or_id o1))"
  by (simp add: getAll_empty orders_get_all_def OrderService_getOrderAll_def
      OrderModel_create_def OrderModel_delete_def empty_orders_db_def OrderModel_getAll_def Let_def)

theorem getAll_restarts_identity_witness:
  "or_rows \<lparr>or_rows = [], or_next_id = 2\<rparr> = []
   \<and> OrderModel_getAll \<lparr>or_rows = [], or_next_id = 2\<rparr> = ([], \<lparr>or_rows = [], or_next_id = 1\<rparr>)
   \<and> or_rows (or_db \<lparr>or_db = \<lparr>or_rows = [], or_next_id = 2\<rparr>, or_all_cached = None\<rparr>) = []
   \<and> or_all_cached \<lparr>or_db = \<lparr>or_rows = [], or_next_id = 2\<rparr>, or_all_cached = None\<rparr> = None
   \<and> orders_get_all \<lparr>or_db = \<lparr>or_rows = [], or_next_id = 2\<rparr>, or_all_cached = None\<rparr> =
       (respond 404 (JObj [(''error'', JStr ''Orders not found'')]),
        \<lparr>or_db = \<lparr>or_rows = [], or_next_id = 1\<rparr>, or_all_cached = None\<rparr>)"
  using getAll_restarts_identity
    [of "\<lparr>or_rows = [], or_next_id = 2\<rparr>"
      "\<lparr>or_db = \<lparr>or_rows = [], or_next_id = 2\<rparr>, or_all_cached = None\<rparr>"
      "(1, ''widget'')" "(1, ''widget'')"]
  by simp

end
